theory Spec2Isabelle
  imports Complex_Main
begin

section \<open>Numbers, vectors and quaternions\<close>

text \<open>
  The simulator core is the class \<open>Space\<close>. Its arithmetic is on JavaScript numbers.
  A finite number is modelled as a real; \<open>None\<close> stands for \<open>NaN\<close>, the value the
  code obtains when it reads past the end of an array and then computes with the result, or
  takes the arc cosine of a number outside \<open>[-1, 1]\<close>. The arithmetic of the model is exact:
  rounding and overflow of doubles are outside it, so a result of the program that rounding
  decides (the sign of a quantity that is zero in exact arithmetic) is not a result of the
  model.
\<close>

type_synonym number = "real option"

definition js_add :: "number \<Rightarrow> number \<Rightarrow> number" where
  "js_add a b = (case a of None \<Rightarrow> None | Some x \<Rightarrow> (case b of None \<Rightarrow> None | Some y \<Rightarrow> Some (x + y)))"

definition js_sub :: "number \<Rightarrow> number \<Rightarrow> number" where
  "js_sub a b = (case a of None \<Rightarrow> None | Some x \<Rightarrow> (case b of None \<Rightarrow> None | Some y \<Rightarrow> Some (x - y)))"

definition js_mul :: "number \<Rightarrow> number \<Rightarrow> number" where
  "js_mul a b = (case a of None \<Rightarrow> None | Some x \<Rightarrow> (case b of None \<Rightarrow> None | Some y \<Rightarrow> Some (x * y)))"

text \<open>Division by a non-zero constant; every divisor written in \<open>Space\<close> is one.\<close>

definition js_div_const :: "number \<Rightarrow> real \<Rightarrow> number" where
  "js_div_const a c = (case a of None \<Rightarrow> None | Some x \<Rightarrow> Some (x / c))"

definition js_neg :: "number \<Rightarrow> number" where
  "js_neg a = (case a of None \<Rightarrow> None | Some x \<Rightarrow> Some (- x))"

definition js_abs :: "number \<Rightarrow> number" where
  "js_abs a = (case a of None \<Rightarrow> None | Some x \<Rightarrow> Some \<bar>x\<bar>)"

text \<open>\<open>Math.min\<close> and \<open>Math.max\<close> return \<open>NaN\<close> as soon as one argument is \<open>NaN\<close>.\<close>

definition js_min :: "number \<Rightarrow> number \<Rightarrow> number" where
  "js_min a b = (case a of None \<Rightarrow> None | Some x \<Rightarrow> (case b of None \<Rightarrow> None | Some y \<Rightarrow> Some (min x y)))"

definition js_max :: "number \<Rightarrow> number \<Rightarrow> number" where
  "js_max a b = (case a of None \<Rightarrow> None | Some x \<Rightarrow> (case b of None \<Rightarrow> None | Some y \<Rightarrow> Some (max x y)))"

text \<open>Every comparison with \<open>NaN\<close> is false, \<open>===\<close> included.\<close>

definition js_lt :: "number \<Rightarrow> real \<Rightarrow> bool" where
  "js_lt a c = (case a of None \<Rightarrow> False | Some x \<Rightarrow> x < c)"

definition js_le :: "number \<Rightarrow> real \<Rightarrow> bool" where
  "js_le a c = (case a of None \<Rightarrow> False | Some x \<Rightarrow> x \<le> c)"

definition js_gt :: "number \<Rightarrow> real \<Rightarrow> bool" where
  "js_gt a c = (case a of None \<Rightarrow> False | Some x \<Rightarrow> x > c)"

definition js_ge :: "number \<Rightarrow> real \<Rightarrow> bool" where
  "js_ge a c = (case a of None \<Rightarrow> False | Some x \<Rightarrow> x \<ge> c)"

definition js_eq :: "number \<Rightarrow> real \<Rightarrow> bool" where
  "js_eq a c = (a = Some c)"

text \<open>\<open>xs[i]\<close> of a number array; past the end the read gives \<open>undefined\<close>, which
  arithmetic and comparisons treat as \<open>NaN\<close>.\<close>

definition js_index :: "number list \<Rightarrow> nat \<Rightarrow> number" where
  "js_index xs i = (if i < length xs then xs ! i else None)"

record vec3 =
  vx :: real
  vy :: real
  vz :: real

record quat =
  qx :: real
  qy :: real
  qz :: real
  qw :: real

definition Vector3_Zero :: vec3 where
  "Vector3_Zero = \<lparr>vx = 0, vy = 0, vz = 0\<rparr>"

definition Vector3_Dot :: "vec3 \<Rightarrow> vec3 \<Rightarrow> real" where
  "Vector3_Dot a b = vx a * vx b + vy a * vy b + vz a * vz b"

definition Vector3_scale :: "vec3 \<Rightarrow> real \<Rightarrow> vec3" where
  "Vector3_scale a k = \<lparr>vx = vx a * k, vy = vy a * k, vz = vz a * k\<rparr>"

text \<open>The quaternions of the rendering library, which \<open>Space\<close> calls: \<open>a.multiply(b)\<close> is
  the Hamilton product \<open>a b\<close>, \<open>Quaternion.Inverse\<close> negates the vector part (it does not
  divide by the norm), \<open>length\<close> is the Euclidean norm and \<open>normalize\<close> multiplies every
  component by \<open>1 / length\<close>, except that it returns a quaternion of length zero as it
  is.\<close>

definition Quaternion_multiply :: "quat \<Rightarrow> quat \<Rightarrow> quat" where
  "Quaternion_multiply a b =
     \<lparr>qx = qx a * qw b + qy a * qz b - qz a * qy b + qw a * qx b,
      qy = - qx a * qz b + qy a * qw b + qz a * qx b + qw a * qy b,
      qz = qx a * qy b - qy a * qx b + qz a * qw b + qw a * qz b,
      qw = - qx a * qx b - qy a * qy b - qz a * qz b + qw a * qw b\<rparr>"

definition Quaternion_Inverse :: "quat \<Rightarrow> quat" where
  "Quaternion_Inverse q = \<lparr>qx = - qx q, qy = - qy q, qz = - qz q, qw = qw q\<rparr>"

definition Quaternion_length :: "quat \<Rightarrow> real" where
  "Quaternion_length q = sqrt (qx q * qx q + qy q * qy q + qz q * qz q + qw q * qw q)"

definition Quaternion_normalize :: "quat \<Rightarrow> quat" where
  "Quaternion_normalize q =
     (if Quaternion_length q = 0 then q
      else \<lparr>qx = qx q * (1 / Quaternion_length q), qy = qy q * (1 / Quaternion_length q),
            qz = qz q * (1 / Quaternion_length q), qw = qw q * (1 / Quaternion_length q)\<rparr>)"

definition Quaternion_scale :: "quat \<Rightarrow> real \<Rightarrow> quat" where
  "Quaternion_scale q k = \<lparr>qx = qx q * k, qy = qy q * k, qz = qz q * k, qw = qw q * k\<rparr>"

definition Quaternion_Identity :: quat where
  "Quaternion_Identity = \<lparr>qx = 0, qy = 0, qz = 0, qw = 1\<rparr>"

text \<open>\<open>Vector3.normalize\<close> leaves a vector of length 0 or 1 as it is;
  \<open>Quaternion.RotationAxis\<close> normalises the axis and builds the rotation by
  \<open>angle\<close> about it.\<close>

definition Vector3_length :: "vec3 \<Rightarrow> real" where
  "Vector3_length a = sqrt (vx a * vx a + vy a * vy a + vz a * vz a)"

definition Vector3_normalize :: "vec3 \<Rightarrow> vec3" where
  "Vector3_normalize a =
     (if Vector3_length a = 0 \<or> Vector3_length a = 1 then a
      else Vector3_scale a (1 / Vector3_length a))"

definition Quaternion_RotationAxis :: "vec3 \<Rightarrow> real \<Rightarrow> quat" where
  "Quaternion_RotationAxis axis angle =
     (let sn = sin (angle / 2); n = Vector3_normalize axis
      in \<lparr>qx = vx n * sn, qy = vy n * sn, qz = vz n * sn, qw = cos (angle / 2)\<rparr>)"

text \<open>\<open>Math.acos\<close> is \<open>NaN\<close> outside \<open>[-1, 1]\<close>.\<close>

definition Math_acos :: "real \<Rightarrow> number" where
  "Math_acos x = (if - 1 \<le> x \<and> x \<le> 1 then Some (arccos x) else None)"

section \<open>Physical units\<close>

text \<open>Modelled from the spec: the modules \<open>util\<close> (\<open>Distance\<close>, \<open>Angle\<close>) and
  \<open>unit-math\<close> (\<open>Vector3\<close>, \<open>Rotation\<close>, \<open>ReferenceFrame\<close>) are not among the sources.
  A value carries the unit type the caller used; the units are those that occur in
  \<open>Space\<close> (meters and centimeters, radians and degrees, the rotation representations
  \<open>euler\<close> and \<open>angle-axis\<close>). A rotation is identified with the orientation it
  denotes; converting it to another representation keeps the orientation and changes the
  type.\<close>

datatype distance_type = Meters | Centimeters

record distance =
  d_type :: distance_type
  d_value :: real

definition Distance_toMetersValue :: "distance \<Rightarrow> real" where
  "Distance_toMetersValue d = (case d_type d of Meters \<Rightarrow> d_value d | Centimeters \<Rightarrow> d_value d / 100)"

definition Distance_toCentimetersValue :: "distance \<Rightarrow> real" where
  "Distance_toCentimetersValue d = (case d_type d of Meters \<Rightarrow> d_value d * 100 | Centimeters \<Rightarrow> d_value d)"

definition Distance_toValue :: "distance \<Rightarrow> distance_type \<Rightarrow> real" where
  "Distance_toValue d t = (case t of Meters \<Rightarrow> Distance_toMetersValue d
                                   | Centimeters \<Rightarrow> Distance_toCentimetersValue d)"


datatype angle_type = Radians | Degrees

record angle =
  a_type :: angle_type
  a_value :: real

definition Angle_toRadiansValue :: "angle \<Rightarrow> real" where
  "Angle_toRadiansValue a = (case a_type a of Radians \<Rightarrow> a_value a | Degrees \<Rightarrow> a_value a * pi / 180)"


record unit_vector3 =
  ux :: distance
  uy :: distance
  uz :: distance

definition UnitVector3_zero :: "distance_type \<Rightarrow> unit_vector3" where
  "UnitVector3_zero t = \<lparr>ux = \<lparr>d_type = t, d_value = 0\<rparr>, uy = \<lparr>d_type = t, d_value = 0\<rparr>,
                          uz = \<lparr>d_type = t, d_value = 0\<rparr>\<rparr>"


definition UnitVector3_toRaw :: "unit_vector3 \<Rightarrow> distance_type \<Rightarrow> vec3" where
  "UnitVector3_toRaw u t = \<lparr>vx = Distance_toValue (ux u) t, vy = Distance_toValue (uy u) t,
                             vz = Distance_toValue (uz u) t\<rparr>"



datatype rotation_type = Euler | AngleAxis

record rotation =
  r_type :: rotation_type
  r_quaternion :: quat


definition Rotation_toRawQuaternion :: "rotation \<Rightarrow> quat" where
  "Rotation_toRawQuaternion r = r_quaternion r"


definition Rotation_Euler_identity :: rotation where
  "Rotation_Euler_identity = \<lparr>r_type = Euler, r_quaternion = Quaternion_Identity\<rparr>"

record unit_reference_frame =
  f_position :: "unit_vector3 option"
  f_orientation :: "rotation option"
  f_scale :: "vec3 option"

text \<open>The object \<open>{}\<close>: a frame none of whose fields is set.\<close>

definition emptyFrame :: unit_reference_frame where
  "emptyFrame = \<lparr>f_position = None, f_orientation = None, f_scale = None\<rparr>"

record robot_position =
  rp_x :: distance
  rp_y :: distance
  rp_z :: distance
  rp_theta :: angle

section \<open>The rig state\<close>

datatype error = TypeError | Error string

text \<open>A method either returns or throws; what it wrote to the object before the throw
  stays written.\<close>

datatype 's outcome = Done 's | Thrown error 's

fun state_of :: "'s outcome \<Rightarrow> 's" where
  "state_of (Done s) = s"
| "state_of (Thrown e s) = s"

fun thrown :: "'s outcome \<Rightarrow> error option" where
  "thrown (Done s) = None"
| "thrown (Thrown e s) = Some e"

record impostor =
  linearVelocity :: vec3
  angularVelocity :: vec3

text \<open>A root mesh of the rig: its orientation, its cached world pose and its physics
  impostor (undefined until \<open>loadMeshes\<close> has created it).\<close>

record mesh =
  position :: vec3
  rotationQuaternion :: quat
  absolutePosition :: vec3
  absoluteRotationQuaternion :: quat
  physicsImpostor :: "impostor option"

text \<open>Calls into the scene graph and the physics engine, in the order \<open>Space\<close> makes
  them. The engine computes the poses that result from re-parenting and moving a transform
  node; the model records the calls. The velocities an impostor holds are state as well.\<close>

datatype root_id = Body | LeftWheel | RightWheel | Arm | Claw

datatype engine_call =
    NewTransformNode
  | NodeSetAbsolutePosition vec3
  | NodeSetRotationQuaternion quat
  | SetLinearVelocity root_id vec3
  | SetAngularVelocity root_id vec3
  | SetParentResetNode root_id
  | SetParentNull root_id
  | DisposeNode
  | SetTimeout_setOrigin unit_reference_frame nat

text \<open>A motor-enabled joint remembers the last \<open>setMotor(target, maxForce?)\<close> it
  received.\<close>

datatype motor_command = SetMotor number "real option"

record joint =
  motor :: "motor_command option"

record space =
  bodyCompoundRootMesh :: "mesh option"
  colliderLeftWheelMesh :: "mesh option"
  colliderRightWheelMesh :: "mesh option"
  armCompoundRootMesh :: "mesh option"
  clawCompoundRootMesh :: "mesh option"
  leftWheelJoint :: "joint option"
  rightWheelJoint :: "joint option"
  armJoint :: "joint option"
  clawJoint :: "joint option"
  leftWheelRotationPrev :: quat
  rightWheelRotationPrev :: quat
  armRotationDefault :: quat
  clawRotationDefault :: quat
  engineCalls :: "engine_call list"

definition MAX_MOTOR_VELOCITY :: real where
  "MAX_MOTOR_VELOCITY = 1500"

definition setMotor :: "joint \<Rightarrow> number \<Rightarrow> real option \<Rightarrow> joint" where
  "setMotor j target maxForce = j\<lparr>motor := Some (SetMotor target maxForce)\<rparr>"

text \<open>\<open>mesh.physicsImpostor.setAngularVelocity(Vector3.Zero())\<close> on a field that may be
  undefined.\<close>

definition stopSpin :: "mesh option \<Rightarrow> error + mesh" where
  "stopSpin m =
     (case m of None \<Rightarrow> Inl TypeError
      | Some me \<Rightarrow> (case physicsImpostor me of None \<Rightarrow> Inl TypeError
          | Some i \<Rightarrow> Inr (me\<lparr>physicsImpostor := Some (i\<lparr>angularVelocity := Vector3_Zero\<rparr>)\<rparr>)))"

section \<open>Wheel drive\<close>

definition setDriveMotors :: "space \<Rightarrow> number \<Rightarrow> number \<Rightarrow> space outcome" where
  "setDriveMotors s leftSpeed rightSpeed =
     (let s1 = (case (leftWheelJoint s, rightWheelJoint s) of
                  (Some lj, Some rj) \<Rightarrow>
                    (let leftSpeedClamped =
                           js_max (Some (- MAX_MOTOR_VELOCITY)) (js_min leftSpeed (Some MAX_MOTOR_VELOCITY));
                         rightSpeedClamped =
                           js_max (Some (- MAX_MOTOR_VELOCITY)) (js_min rightSpeed (Some MAX_MOTOR_VELOCITY))
                     in s\<lparr>leftWheelJoint := Some (setMotor lj (js_div_const leftSpeedClamped 315) None),
                          rightWheelJoint := Some (setMotor rj (js_div_const (js_neg rightSpeedClamped) 315) None)\<rparr>)
                | _ \<Rightarrow> s)
      in if js_eq leftSpeed 0 then
           (case stopSpin (colliderLeftWheelMesh s1) of
              Inl e \<Rightarrow> Thrown e s1
            | Inr m \<Rightarrow>
                (let s2 = s1\<lparr>colliderLeftWheelMesh := Some m\<rparr>
                 in if js_eq rightSpeed 0 then
                      (case stopSpin (colliderRightWheelMesh s2) of
                         Inl e \<Rightarrow> Thrown e s2
                       | Inr m' \<Rightarrow> Done (s2\<lparr>colliderRightWheelMesh := Some m'\<rparr>))
                    else Done s2))
         else if js_eq rightSpeed 0 then
           (case stopSpin (colliderRightWheelMesh s1) of
              Inl e \<Rightarrow> Thrown e s1
            | Inr m' \<Rightarrow> Done (s1\<lparr>colliderRightWheelMesh := Some m'\<rparr>))
         else Done s1)"

text \<open>The target angular velocity a wheel joint holds, when it holds one.\<close>

definition motor_target :: "joint option \<Rightarrow> number option" where
  "motor_target j =
     (case j of None \<Rightarrow> None
      | Some jj \<Rightarrow> (case motor jj of None \<Rightarrow> None | Some (SetMotor t f) \<Rightarrow> Some t))"

section \<open>Swing-twist extraction\<close>

definition getTwistForQuaternion :: "quat \<Rightarrow> vec3 \<Rightarrow> quat" where
  "getTwistForQuaternion q direction =
     (let rotationAxis = \<lparr>vx = qx q, vy = qy q, vz = qz q\<rparr>;
          dotProd = Vector3_Dot direction rotationAxis;
          projection = Vector3_scale direction dotProd;
          twist = Quaternion_normalize \<lparr>qx = vx projection, qy = vy projection, qz = vz projection, qw = qw q\<rparr>
      in if dotProd < 0 then Quaternion_scale twist (- 1) else twist)"

definition getDeltaRotationOnAxis :: "quat \<Rightarrow> quat \<Rightarrow> vec3 \<Rightarrow> number" where
  "getDeltaRotationOnAxis start end axis =
     (let axisQuaternion = \<lparr>qx = vx axis, qy = vy axis, qz = vz axis, qw = 0\<rparr>;
          axisLocalQuaternion =
            Quaternion_multiply (Quaternion_multiply start axisQuaternion) (Quaternion_Inverse start);
          axisLocalVector =
            \<lparr>vx = qx axisLocalQuaternion, vy = qy axisLocalQuaternion, vz = qz axisLocalQuaternion\<rparr>;
          delta = Quaternion_multiply end (Quaternion_Inverse start)
      in js_mul (Some 2) (Math_acos (qw (getTwistForQuaternion delta axisLocalVector))))"

definition wheelRotationVector :: vec3 where
  "wheelRotationVector = \<lparr>vx = 0, vy = - 1, vz = 0\<rparr>"

definition armRotationVector :: vec3 where
  "armRotationVector = \<lparr>vx = 1, vy = 0, vz = 0\<rparr>"

definition clawRotationVector :: vec3 where
  "clawRotationVector = \<lparr>vx = 0, vy = 0, vz = - 1\<rparr>"

definition WHEEL_TICKS_PER_RADIAN :: real where
  "WHEEL_TICKS_PER_RADIAN = 2048 / (2 * pi)"

definition SERVO_DEFUALT_RADIANS :: real where
  "SERVO_DEFUALT_RADIANS = 87.5 * pi / 180"

definition SERVO_TICKS_PER_RADIAN :: real where
  "SERVO_TICKS_PER_RADIAN = 2048 / (2 * SERVO_DEFUALT_RADIANS)"

definition ARM_DEFAULT_ROTATION :: real where
  "ARM_DEFAULT_ROTATION = SERVO_DEFUALT_RADIANS"

definition CLAW_DEFAULT_ROTATION :: real where
  "CLAW_DEFAULT_ROTATION = 175 * pi / 180"

section \<open>Servo drive\<close>

text \<open>\<open>setServoPositions\<close> runs the same computation for the arm and for the claw. Its
  local values are the definitions below, named as in the source: the rotation of a servo
  against its baseline (reduced by \<open>2 pi\<close> from \<open>pi\<close> on), the signed and the normalised
  distance to the goal, and the three-way choice of the motor command.\<close>

definition servoRotation :: "quat \<Rightarrow> quat \<Rightarrow> quat \<Rightarrow> vec3 \<Rightarrow> number" where
  "servoRotation rotationDefault parentCurrQuat childCurrQuat axis =
     (let curr = Quaternion_multiply (Quaternion_Inverse parentCurrQuat) childCurrQuat;
          rotation = getDeltaRotationOnAxis rotationDefault curr axis
      in if js_ge rotation pi then js_sub rotation (Some (2 * pi)) else rotation)"

definition armDelta :: "number \<Rightarrow> number list \<Rightarrow> number" where
  "armDelta armRotation goals =
     js_sub (js_add armRotation (Some ARM_DEFAULT_ROTATION))
            (js_div_const (js_index goals 0) SERVO_TICKS_PER_RADIAN)"

definition armSign :: "number \<Rightarrow> real" where
  "armSign delta = (if js_ge delta 0 then 1 else - 1)"

definition clawDelta :: "number \<Rightarrow> number list \<Rightarrow> number" where
  "clawDelta clawRotation goals =
     js_add (js_sub clawRotation (Some CLAW_DEFAULT_ROTATION))
            (js_div_const (js_index goals 3) SERVO_TICKS_PER_RADIAN)"

definition clawSign :: "number \<Rightarrow> real" where
  "clawSign delta = (if js_ge delta 0 then - 1 else 1)"

definition deltaNorm :: "number \<Rightarrow> number" where
  "deltaNorm delta = js_abs (js_div_const delta (SERVO_DEFUALT_RADIANS * 2))"

definition driveServo :: "joint \<Rightarrow> number \<Rightarrow> real \<Rightarrow> real \<Rightarrow> joint" where
  "driveServo j dNorm dSign maxForce =
     (if js_lt dNorm 0.01 then setMotor j (Some 0) None
      else if js_ge dNorm 0.001 \<and> js_le dNorm 0.04 then setMotor j (Some (dSign * 1.2)) (Some maxForce)
      else setMotor j (Some (dSign * 6)) (Some maxForce))"

definition setServoPositions :: "space \<Rightarrow> number list \<Rightarrow> space outcome" where
  "setServoPositions s goals =
     (case (bodyCompoundRootMesh s, armCompoundRootMesh s, clawCompoundRootMesh s) of
        (Some body, Some arm, Some claw) \<Rightarrow>
          (let bodyCurrQuat = rotationQuaternion body;
               armCurrQuat = rotationQuaternion arm;
               clawCurrQuat = rotationQuaternion claw;
               armRotation = servoRotation (armRotationDefault s) bodyCurrQuat armCurrQuat armRotationVector;
               aDelta = armDelta armRotation goals
           in case armJoint s of
                None \<Rightarrow> Thrown TypeError s
              | Some aj \<Rightarrow>
                  (let s1 = s\<lparr>armJoint := Some (driveServo aj (deltaNorm aDelta) (armSign aDelta) 8000)\<rparr>;
                       clawRotation = servoRotation (clawRotationDefault s1) armCurrQuat clawCurrQuat clawRotationVector;
                       cDelta = clawDelta clawRotation goals
                   in case clawJoint s1 of
                        None \<Rightarrow> Thrown TypeError s1
                      | Some cj \<Rightarrow>
                          Done (s1\<lparr>clawJoint := Some (driveServo cj (deltaNorm cDelta) (clawSign cDelta) 2000)\<rparr>)))
      | _ \<Rightarrow> Thrown TypeError s)"

section \<open>The after-render callback\<close>

record robot_state =
  motorSpeeds :: "number list"
  motorPositions :: "number list"
  servoPositions :: "number list"
  analogValues :: "number list"
  digitalValues :: "bool list"

text \<open>The rotation of a wheel since the previous frame, as the callback reduces it.\<close>

definition wheelRotation :: "quat \<Rightarrow> quat \<Rightarrow> number" where
  "wheelRotation rotationPrev rotationCurr =
     (let rotation = getDeltaRotationOnAxis rotationPrev rotationCurr wheelRotationVector
      in if js_gt rotation pi then js_sub rotation (Some (2 * pi)) else rotation)"

text \<open>The callback reads the robot state of the store, drives the joints, and dispatches the
  state with new motor positions. The store is the second component.\<close>

definition afterRender :: "space \<times> robot_state \<Rightarrow> (space \<times> robot_state) outcome" where
  "afterRender sr =
     (let s = fst sr; currRobotState = snd sr
      in case setDriveMotors s (js_index (motorSpeeds currRobotState) 0) (js_index (motorSpeeds currRobotState) 3) of
           Thrown e s1 \<Rightarrow> Thrown e (s1, currRobotState)
         | Done s1 \<Rightarrow>
            (case setServoPositions s1 (servoPositions currRobotState) of
               Thrown e s2 \<Rightarrow> Thrown e (s2, currRobotState)
             | Done s2 \<Rightarrow>
                (case (bodyCompoundRootMesh s2, colliderLeftWheelMesh s2, colliderRightWheelMesh s2) of
                   (Some body, Some left, Some right) \<Rightarrow>
                     (let leftWheelRotationCurr =
                            Quaternion_multiply (Quaternion_Inverse (rotationQuaternion body)) (rotationQuaternion left);
                          rightWheelRotationCurr =
                            Quaternion_multiply (Quaternion_Inverse (rotationQuaternion body)) (rotationQuaternion right);
                          leftRotation = wheelRotation (leftWheelRotationPrev s2) leftWheelRotationCurr;
                          rightRotation = wheelRotation (rightWheelRotationPrev s2) rightWheelRotationCurr;
                          m0Position = js_add (js_index (motorPositions currRobotState) 0)
                                              (js_mul leftRotation (Some WHEEL_TICKS_PER_RADIAN));
                          m3Position = js_add (js_index (motorPositions currRobotState) 3)
                                              (js_mul rightRotation (Some WHEEL_TICKS_PER_RADIAN))
                      in Done (s2\<lparr>leftWheelRotationPrev := leftWheelRotationCurr,
                                  rightWheelRotationPrev := rightWheelRotationCurr\<rparr>,
                               currRobotState\<lparr>motorPositions := [m0Position, Some 0, Some 0, m3Position]\<rparr>))
                 | _ \<Rightarrow> Thrown TypeError (s2, currRobotState))))"

text \<open>What \<open>loadMeshes\<close> has established when the render loop starts: the five root meshes
  with their impostors and the four joints.\<close>

definition hasImpostor :: "mesh option \<Rightarrow> bool" where
  "hasImpostor m = (case m of None \<Rightarrow> False | Some me \<Rightarrow> physicsImpostor me \<noteq> None)"

definition rigBuilt :: "space \<Rightarrow> bool" where
  "rigBuilt s =
     (hasImpostor (bodyCompoundRootMesh s) \<and> hasImpostor (colliderLeftWheelMesh s)
      \<and> hasImpostor (colliderRightWheelMesh s) \<and> hasImpostor (armCompoundRootMesh s)
      \<and> hasImpostor (clawCompoundRootMesh s)
      \<and> leftWheelJoint s \<noteq> None \<and> rightWheelJoint s \<noteq> None
      \<and> armJoint s \<noteq> None \<and> clawJoint s \<noteq> None)"

section \<open>Repositioning the robot\<close>

definition rootMeshes :: "root_id list" where
  "rootMeshes = [Body, LeftWheel, RightWheel, Arm, Claw]"

fun getRoot :: "space \<Rightarrow> root_id \<Rightarrow> mesh option" where
  "getRoot s Body = bodyCompoundRootMesh s"
| "getRoot s LeftWheel = colliderLeftWheelMesh s"
| "getRoot s RightWheel = colliderRightWheelMesh s"
| "getRoot s Arm = armCompoundRootMesh s"
| "getRoot s Claw = clawCompoundRootMesh s"

fun putRoot :: "space \<Rightarrow> root_id \<Rightarrow> mesh \<Rightarrow> space" where
  "putRoot s Body m = s\<lparr>bodyCompoundRootMesh := Some m\<rparr>"
| "putRoot s LeftWheel m = s\<lparr>colliderLeftWheelMesh := Some m\<rparr>"
| "putRoot s RightWheel m = s\<lparr>colliderRightWheelMesh := Some m\<rparr>"
| "putRoot s Arm m = s\<lparr>armCompoundRootMesh := Some m\<rparr>"
| "putRoot s Claw m = s\<lparr>clawCompoundRootMesh := Some m\<rparr>"

definition logCalls :: "space \<Rightarrow> engine_call list \<Rightarrow> space" where
  "logCalls s cs = s\<lparr>engineCalls := engineCalls s @ cs\<rparr>"

text \<open>The first loop over the root meshes: stop the body, then parent it to the reset
  node.\<close>

fun stopAndAttach :: "root_id list \<Rightarrow> space \<Rightarrow> space outcome" where
  "stopAndAttach [] s = Done s"
| "stopAndAttach (r # rs) s =
     (case getRoot s r of
        None \<Rightarrow> Thrown TypeError s
      | Some m \<Rightarrow>
          (case physicsImpostor m of
             None \<Rightarrow> Thrown TypeError s
           | Some i \<Rightarrow>
               stopAndAttach rs
                 (logCalls
                    (putRoot s r (m\<lparr>physicsImpostor :=
                        Some (i\<lparr>linearVelocity := Vector3_Zero, angularVelocity := Vector3_Zero\<rparr>)\<rparr>))
                    [SetLinearVelocity r Vector3_Zero, SetAngularVelocity r Vector3_Zero,
                     SetParentResetNode r])))"

text \<open>The second loop: un-parent every root mesh.\<close>

fun detachAll :: "root_id list \<Rightarrow> space \<Rightarrow> space outcome" where
  "detachAll [] s = Done s"
| "detachAll (r # rs) s =
     (case getRoot s r of
        None \<Rightarrow> Thrown TypeError s
      | Some m \<Rightarrow> detachAll rs (logCalls s [SetParentNull r]))"

text \<open>What \<open>setRobotPosition\<close> and \<open>setOrigin\<close> share, from the creation of the reset node
  to its disposal; they differ in the target pose.\<close>

definition moveRig :: "space \<Rightarrow> vec3 \<Rightarrow> quat \<Rightarrow> space outcome" where
  "moveRig s targetPosition targetRotation =
     (let s0 = logCalls s [NewTransformNode]
      in case bodyCompoundRootMesh s0 of
           None \<Rightarrow> Thrown TypeError s0
         | Some body \<Rightarrow>
             (case stopAndAttach rootMeshes
                     (logCalls s0 [NodeSetAbsolutePosition (absolutePosition body),
                                   NodeSetRotationQuaternion (absoluteRotationQuaternion body)]) of
                Thrown e s2 \<Rightarrow> Thrown e s2
              | Done s2 \<Rightarrow>
                  (case detachAll rootMeshes
                          (logCalls s2 [NodeSetAbsolutePosition targetPosition,
                                        NodeSetRotationQuaternion targetRotation]) of
                     Thrown e s4 \<Rightarrow> Thrown e s4
                   | Done s4 \<Rightarrow> Done (logCalls s4 [DisposeNode]))))"

definition Vector3_Up :: vec3 where
  "Vector3_Up = \<lparr>vx = 0, vy = 1, vz = 0\<rparr>"

definition setRobotPosition :: "space \<Rightarrow> robot_position \<Rightarrow> space outcome" where
  "setRobotPosition s p =
     moveRig s
       \<lparr>vx = Distance_toCentimetersValue (rp_x p), vy = Distance_toCentimetersValue (rp_y p),
        vz = Distance_toCentimetersValue (rp_z p)\<rparr>
       (Quaternion_RotationAxis Vector3_Up (Angle_toRadiansValue (rp_theta p)))"

text \<open>\<open>setOrigin\<close> first checks that every root mesh exists; if one does not, it schedules
  itself again in 100 ms and returns.\<close>

definition setOrigin :: "space \<Rightarrow> unit_reference_frame \<Rightarrow> space outcome" where
  "setOrigin s origin =
     (if \<exists>r \<in> set rootMeshes. getRoot s r = None
      then Done (logCalls s [SetTimeout_setOrigin origin 100])
      else moveRig s
             (UnitVector3_toRaw (case f_position origin of None \<Rightarrow> UnitVector3_zero Centimeters
                                                        | Some p \<Rightarrow> p) Centimeters)
             (Rotation_toRawQuaternion (case f_orientation origin of None \<Rightarrow> Rotation_Euler_identity
                                                                  | Some r \<Rightarrow> r)))"

section \<open>State reconciliation\<close>











section \<open>Building the rig\<close>

text \<open>The loaded model, as \<open>loadMeshes\<close> queries it: the names of its meshes and of its
  transform nodes. The import itself is a black box.\<close>

record model_asset =
  meshNames :: "string list"
  transformNodeNames :: "string list"

datatype collider_shape = Box | Sphere

datatype compound = BodyCompound | ArmCompound | ClawCompound

datatype promise = Resolved | Rejected error

text \<open>What \<open>loadMeshes\<close> has installed in the \<open>Space\<close> object so far: the compound roots
  it has created, the collider meshes it has given a static impostor and parented to a
  root (in order), and the later stages of the construction.\<close>

record rig =
  rootsCreated :: "compound list"
  colliders :: "(string \<times> collider_shape \<times> compound) list"
  wheelsFound :: bool
  visualsParented :: bool
  baselinesRecorded :: bool
  rootImpostors :: "root_id list"
  joints :: "root_id list"
  sensorsCreated :: bool
  robotPlaced :: bool
  renderLoopRunning :: bool
  initializationPromise :: "promise option"

definition bodyColliderMeshInfos :: "(string \<times> collider_shape) list" where
  "bodyColliderMeshInfos =
     [(''collider_body'', Box), (''collider_body_back_panel'', Box),
      (''collider_body_front_panel'', Box), (''collider_body_front_legos_1'', Box),
      (''collider_body_front_legos_2'', Box), (''collider_body_front_legos_3'', Box),
      (''collider_body_lego'', Box), (''collider_caster'', Sphere),
      (''collider_touch_back_left'', Box), (''collider_touch_back_right'', Box),
      (''collider_touch_front'', Box), (''collider_wallaby'', Box),
      (''collider_battery'', Box), (''collider_arm_servo'', Box)]"

definition armColliderMeshInfos :: "string list" where
  "armColliderMeshInfos =
     [''collider_arm_claw_1'', ''collider_arm_claw_2'', ''collider_arm_claw_3'',
      ''collider_claw_servo'', ''collider_claw_servo_rod_1'', ''collider_claw_servo_rod_2'',
      ''collider_claw_et'', ''collider_arm_base'']"

definition clawColliderMeshInfos :: "string list" where
  "clawColliderMeshInfos =
     [''collider_claw_1'', ''collider_claw_2'', ''collider_claw_3'', ''collider_claw_3_metal'']"

text \<open>Sequencing: a throw ends the method.\<close>

definition andThen :: "'s outcome \<Rightarrow> ('s \<Rightarrow> 's outcome) \<Rightarrow> 's outcome" where
  "andThen r f = (case r of Done s \<Rightarrow> f s | Thrown e s \<Rightarrow> Thrown e s)"

text \<open>A method call on the result of a lookup: a \<open>TypeError\<close> when the lookup found
  nothing.\<close>

definition deref :: "string \<Rightarrow> string list \<Rightarrow> 's \<Rightarrow> 's outcome" where
  "deref name names s = (if name \<in> set names then Done s else Thrown TypeError s)"

text \<open>One of the three collider loops: look the mesh up, throw if it is absent, otherwise
  un-parent it, give it a static impostor of its shape and parent it to the compound
  root.\<close>

fun attachColliders ::
  "string list \<Rightarrow> compound \<Rightarrow> (string \<times> collider_shape) list \<Rightarrow> rig \<Rightarrow> rig outcome" where
  "attachColliders meshes c [] st = Done st"
| "attachColliders meshes c ((name, shape) # rest) st =
     (if name \<in> set meshes
      then attachColliders meshes c rest (st\<lparr>colliders := colliders st @ [(name, shape, c)]\<rparr>)
      else Thrown (Error (''failed to find collider mesh in model: '' @ name)) st)"

text \<open>\<open>loadMeshes\<close> up to the end of the three collider loops.\<close>

definition attachAllColliders :: "model_asset \<Rightarrow> rig \<Rightarrow> rig outcome" where
  "attachAllColliders a st0 =
     andThen (deref ''__root__'' (meshNames a) st0) (\<lambda>st.
     andThen (deref ''Root'' (transformNodeNames a) st) (\<lambda>st.
     andThen (deref ''collider_wallaby'' (meshNames a) st) (\<lambda>st.
     andThen (deref ''collider_claw_servo'' (meshNames a)
                (st\<lparr>rootsCreated := rootsCreated st @ [BodyCompound]\<rparr>)) (\<lambda>st.
     andThen (deref ''collider_claw_3'' (meshNames a)
                (st\<lparr>rootsCreated := rootsCreated st @ [ArmCompound]\<rparr>)) (\<lambda>st.
     andThen (attachColliders (meshNames a) BodyCompound bodyColliderMeshInfos
                (st\<lparr>rootsCreated := rootsCreated st @ [ClawCompound]\<rparr>)) (\<lambda>st.
     andThen (attachColliders (meshNames a) ArmCompound
                (map (\<lambda>n. (n, Box)) armColliderMeshInfos) st) (\<lambda>st.
     attachColliders (meshNames a) ClawCompound
                (map (\<lambda>n. (n, Box)) clawColliderMeshInfos) st)))))))"

text \<open>The rest of \<open>loadMeshes\<close>: the wheels, the visual transform nodes, the baselines, the
  impostors of the five roots, the four joints (claw, arm, right wheel, left wheel), the
  sensors and the initial placement of the robot.\<close>

definition finishRig :: "model_asset \<Rightarrow> rig \<Rightarrow> rig outcome" where
  "finishRig a st0 =
     andThen (deref ''collider_left_wheel'' (meshNames a) st0) (\<lambda>st.
     andThen (deref ''collider_right_wheel'' (meshNames a) st) (\<lambda>st.
     andThen (deref ''ChassisWombat-1'' (transformNodeNames a) (st\<lparr>wheelsFound := True\<rparr>)) (\<lambda>st.
     andThen (deref ''KIPR_Lower_final_062119-1'' (transformNodeNames a) st) (\<lambda>st.
     andThen (deref ''1 x 5 Servo Horn-1'' (transformNodeNames a) st) (\<lambda>st.
     andThen (deref ''1 x 5 Servo Horn-2'' (transformNodeNames a) st) (\<lambda>st.
     andThen (deref ''Servo Wheel-1'' (transformNodeNames a) st) (\<lambda>st.
     andThen (deref ''Servo Wheel-2'' (transformNodeNames a) st) (\<lambda>st.
     andThen (deref ''Servo Washer-1'' (transformNodeNames a)
                (st\<lparr>visualsParented := True, baselinesRecorded := True,
                    rootImpostors := [Body, LeftWheel, RightWheel, Arm, Claw]\<rparr>)) (\<lambda>st.
     andThen (deref ''Servo Washer-2'' (transformNodeNames a) (st\<lparr>joints := joints st @ [Claw]\<rparr>)) (\<lambda>st.
     Done (st\<lparr>joints := joints st @ [Arm, RightWheel, LeftWheel],
              sensorsCreated := True, robotPlaced := True\<rparr>)))))))))))"

definition loadMeshes :: "model_asset \<Rightarrow> rig \<Rightarrow> rig outcome" where
  "loadMeshes a st = andThen (attachAllColliders a st) (finishRig a)"

text \<open>\<open>ensureInitialized\<close> creates the promise once: it resolves after \<open>loadMeshes\<close> and the
  start of the render loop, and rejects with the error \<open>loadMeshes\<close> throws. Later calls
  return the same promise. (\<open>createScene\<close>, which precedes \<open>loadMeshes\<close>, is taken to
  succeed.)\<close>

definition ensureInitialized :: "model_asset \<Rightarrow> rig \<Rightarrow> promise \<times> rig" where
  "ensureInitialized a st =
     (case initializationPromise st of
        Some p \<Rightarrow> (p, st)
      | None \<Rightarrow>
          (case loadMeshes a st of
             Done st' \<Rightarrow> (Resolved, st'\<lparr>renderLoopRunning := True, initializationPromise := Some Resolved\<rparr>)
           | Thrown e st' \<Rightarrow> (Rejected e, st'\<lparr>initializationPromise := Some (Rejected e)\<rparr>)))"

text \<open>The collider meshes the three manifests name.\<close>

definition manifestNames :: "string list" where
  "manifestNames = map fst bodyColliderMeshInfos @ armColliderMeshInfos @ clawColliderMeshInfos"

text \<open>A \<open>Space\<close> on which nothing has been built.\<close>

definition emptyRig :: rig where
  "emptyRig = \<lparr>rootsCreated = [], colliders = [], wheelsFound = False, visualsParented = False,
                baselinesRecorded = False, rootImpostors = [], joints = [], sensorsCreated = False,
                robotPlaced = False, renderLoopRunning = False, initializationPromise = None\<rparr>"

section \<open>Scene changes from the store\<close>

text \<open>The store listener \<open>onStoreChange_\<close> and the asynchronous function it starts. The
  function is suspended at an \<open>await\<close> of \<open>setScene\<close>; \<open>task\<close> records at which one, with
  the scene it captured. Everything runs on one thread, so the steps are the calls of the
  listener and the completions of the awaited promise. Scenes are compared by identity
  (\<open>!==\<close>); a field not yet assigned is \<open>None\<close>.\<close>

datatype 'sc task = Idle | AwaitingFirst 'sc | AwaitingSecond "'sc option"

text \<open>Modelled from the spec: \<open>SceneBinding\<close> is not among the sources. \<open>setScene(s)\<close>
  applies the scene \<open>s\<close> to the live scene and its promise resolves when that is done, after
  which the binding shows \<open>s\<close>; assigning \<open>sceneBinding_.scene\<close> swaps the scene directly.
  The field \<open>bindingScene\<close> is the scene the binding shows and \<open>setSceneCalls\<close> lists the
  calls of \<open>setScene\<close> made so far; the other fields are those of \<open>Space\<close>.\<close>

record 'sc sync =
  debounceUpdate :: bool
  sceneSetting :: bool
  latestUnfulfilledScene :: "'sc option"
  physicsEnabled :: bool
  task :: "'sc task"
  bindingScene :: "'sc option"
  setSceneCalls :: "'sc option list"

definition onStoreChange :: "'sc sync \<Rightarrow> 'sc \<Rightarrow> 'sc sync" where
  "onStoreChange st workingScene =
     (if debounceUpdate st then st\<lparr>bindingScene := Some workingScene\<rparr>
      else if \<not> sceneSetting st
      then st\<lparr>sceneSetting := True, latestUnfulfilledScene := Some workingScene,
              physicsEnabled := False, task := AwaitingFirst workingScene,
              setSceneCalls := setSceneCalls st @ [Some workingScene]\<rparr>
      else st\<lparr>latestUnfulfilledScene := Some workingScene\<rparr>)"

text \<open>The awaited \<open>setScene\<close> resolves: the function resumes after its first \<open>await\<close>
  (compare, and perhaps apply the latest scene) or after its second (enable physics, then
  \<open>finally\<close> clears \<open>sceneSetting_\<close>).\<close>

definition setSceneResolved :: "'sc sync \<Rightarrow> 'sc sync" where
  "setSceneResolved st =
     (case task st of
        Idle \<Rightarrow> st
      | AwaitingFirst workingScene \<Rightarrow>
          (if latestUnfulfilledScene st \<noteq> Some workingScene
           then st\<lparr>bindingScene := Some workingScene,
                   task := AwaitingSecond (latestUnfulfilledScene st),
                   setSceneCalls := setSceneCalls st @ [latestUnfulfilledScene st]\<rparr>
           else st\<lparr>bindingScene := Some workingScene, physicsEnabled := True, task := Idle,
                   sceneSetting := False\<rparr>)
      | AwaitingSecond latest \<Rightarrow>
          st\<lparr>bindingScene := latest, physicsEnabled := True, task := Idle, sceneSetting := False\<rparr>)"

text \<open>The awaited \<open>setScene\<close> rejects: the function ends there, physics stays disabled and
  \<open>finally\<close> clears \<open>sceneSetting_\<close>.\<close>

definition setSceneRejected :: "'sc sync \<Rightarrow> 'sc sync" where
  "setSceneRejected st =
     (case task st of
        Idle \<Rightarrow> st
      | _ \<Rightarrow> st\<lparr>task := Idle, sceneSetting := False\<rparr>)"

datatype 'sc event = StoreChange 'sc | SetSceneResolves | SetSceneRejects

fun step :: "'sc sync \<Rightarrow> 'sc event \<Rightarrow> 'sc sync" where
  "step st (StoreChange workingScene) = onStoreChange st workingScene"
| "step st SetSceneResolves = setSceneResolved st"
| "step st SetSceneRejects = setSceneRejected st"

fun run :: "'sc sync \<Rightarrow> 'sc event list \<Rightarrow> 'sc sync" where
  "run st [] = st"
| "run st (ev # evs) = run (step st ev) evs"

section \<open>Concrete instances and auxiliary notions\<close>

text \<open>A freshly built rig at rest in the identity pose, whose bodies still carry some
  velocity, and a robot state with commanded speeds and servo goals.\<close>

definition restingMesh :: mesh where
  "restingMesh =
     \<lparr>position = Vector3_Zero, rotationQuaternion = Quaternion_Identity,
      absolutePosition = Vector3_Zero,
      absoluteRotationQuaternion = Quaternion_Identity,
      physicsImpostor = Some \<lparr>linearVelocity = \<lparr>vx = 1, vy = 2, vz = 3\<rparr>,
                              angularVelocity = \<lparr>vx = 4, vy = 5, vz = 6\<rparr>\<rparr>\<rparr>"

definition restingRig :: space where
  "restingRig =
     \<lparr>bodyCompoundRootMesh = Some restingMesh, colliderLeftWheelMesh = Some restingMesh,
      colliderRightWheelMesh = Some restingMesh, armCompoundRootMesh = Some restingMesh,
      clawCompoundRootMesh = Some restingMesh,
      leftWheelJoint = Some \<lparr>motor = None\<rparr>, rightWheelJoint = Some \<lparr>motor = None\<rparr>,
      armJoint = Some \<lparr>motor = None\<rparr>, clawJoint = Some \<lparr>motor = None\<rparr>,
      leftWheelRotationPrev = Quaternion_Identity, rightWheelRotationPrev = Quaternion_Identity,
      armRotationDefault = Quaternion_Identity, clawRotationDefault = Quaternion_Identity,
      engineCalls = []\<rparr>"

definition sampleRobotState :: robot_state where
  "sampleRobotState =
     \<lparr>motorSpeeds = [Some 2000, Some 7, Some 8, Some (- 9000)],
      motorPositions = [Some 10, Some 20, Some 30, Some 40],
      servoPositions = [Some 1024, Some 0, Some 0, Some 2048],
      analogValues = [], digitalValues = []\<rparr>"

text \<open>The resting rig with one part turned: its left wheel by \<open>3 pi / 2\<close> about the
  wheel axis since the previous frame, its arm (and the claw with it) by \<open>3 pi / 2\<close> about
  the arm axis away from the baseline, or its claw by \<open>pi / 2\<close> about the claw axis.\<close>

definition turnedMesh :: "vec3 \<Rightarrow> real \<Rightarrow> mesh" where
  "turnedMesh axis t = restingMesh\<lparr>rotationQuaternion := Quaternion_RotationAxis axis t\<rparr>"

definition turnedWheelRig :: space where
  "turnedWheelRig =
     restingRig\<lparr>colliderLeftWheelMesh := Some (turnedMesh wheelRotationVector (3 * pi / 2))\<rparr>"

definition turnedArmRig :: space where
  "turnedArmRig =
     restingRig\<lparr>armCompoundRootMesh := Some (turnedMesh armRotationVector (3 * pi / 2)),
                 clawCompoundRootMesh := Some (turnedMesh armRotationVector (3 * pi / 2))\<rparr>"

definition turnedClawRig :: space where
  "turnedClawRig =
     restingRig\<lparr>clawCompoundRootMesh := Some (turnedMesh clawRotationVector (pi / 2))\<rparr>"

text \<open>The axis carried into the start frame, \<open>p a p\<^sup>*\<close>, and the squared norm.\<close>

definition axisInFrame :: "quat \<Rightarrow> vec3 \<Rightarrow> quat" where
  "axisInFrame p a =
     Quaternion_multiply (Quaternion_multiply p \<lparr>qx = vx a, qy = vy a, qz = vz a, qw = 0\<rparr>)
                         (Quaternion_Inverse p)"

definition norm2 :: "quat \<Rightarrow> real" where
  "norm2 q = qx q * qx q + qy q * qy q + qz q * qz q + qw q * qw q"

text \<open>A root body at rest: it has an impostor whose two velocities are zero.\<close>

definition stopped :: "mesh option \<Rightarrow> bool" where
  "stopped m =
     (case m of None \<Rightarrow> False
      | Some me \<Rightarrow> (case physicsImpostor me of None \<Rightarrow> False
          | Some i \<Rightarrow> linearVelocity i = Vector3_Zero \<and> angularVelocity i = Vector3_Zero))"

text \<open>The calls of the first loop for one root mesh.\<close>

definition stopCalls :: "root_id \<Rightarrow> engine_call list" where
  "stopCalls r = [SetLinearVelocity r Vector3_Zero, SetAngularVelocity r Vector3_Zero,
                  SetParentResetNode r]"








text \<open>A model that has every mesh and transform node \<open>loadMeshes\<close> asks for, and one whose
  battery collider is missing.\<close>

definition completeModel :: model_asset where
  "completeModel =
     \<lparr>meshNames = ''__root__'' # ''collider_left_wheel'' # ''collider_right_wheel'' # manifestNames,
      transformNodeNames = [''Root'', ''ChassisWombat-1'', ''KIPR_Lower_final_062119-1'',
        ''1 x 5 Servo Horn-1'', ''1 x 5 Servo Horn-2'', ''Servo Wheel-1'', ''Servo Wheel-2'',
        ''Servo Washer-1'', ''Servo Washer-2'']\<rparr>"

definition modelWithoutBattery :: model_asset where
  "modelWithoutBattery =
     completeModel\<lparr>meshNames := filter (\<lambda>n. n \<noteq> ''collider_battery'') (meshNames completeModel)\<rparr>"

text \<open>The stages of the construction that follow the collider loops.\<close>

definition laterStages ::
  "rig \<Rightarrow> bool \<times> bool \<times> bool \<times> root_id list \<times> root_id list \<times> bool \<times> bool \<times> bool" where
  "laterStages st = (wheelsFound st, visualsParented st, baselinesRecorded st, rootImpostors st,
                     joints st, sensorsCreated st, robotPlaced st, renderLoopRunning st)"

text \<open>What holds of an outcome \<open>r\<close> of a part of the collider stage started in \<open>st\<close>: the
  later stages are untouched, and a throw is a \<open>TypeError\<close> or names a manifest mesh the
  model lacks.\<close>

definition collidersStage :: "model_asset \<Rightarrow> rig \<Rightarrow> rig outcome \<Rightarrow> bool" where
  "collidersStage a st r =
     (laterStages (state_of r) = laterStages st
      \<and> initializationPromise (state_of r) = initializationPromise st
      \<and> (case thrown r of
            None \<Rightarrow> True
          | Some e \<Rightarrow> e = TypeError
              \<or> (\<exists>n \<in> set manifestNames. n \<notin> set (meshNames a)
                    \<and> e = Error (''failed to find collider mesh in model: '' @ n))))"

text \<open>A \<open>Space\<close> whose listener is idle, showing a scene named \<open>''start''\<close>.\<close>

definition idleSync :: "string sync" where
  "idleSync = \<lparr>debounceUpdate = False, sceneSetting = False, latestUnfulfilledScene = None,
                physicsEnabled = True, task = Idle, bindingScene = Some ''start'',
                setSceneCalls = []\<rparr>"

section \<open>Quaternion algebra of the extractor\<close>

lemma axisInFrame_w: "qw (axisInFrame p a) = 0"
  by (simp add: axisInFrame_def Quaternion_multiply_def Quaternion_Inverse_def algebra_simps)

lemma axisInFrame_norm:
  "qx (axisInFrame p a) * qx (axisInFrame p a) + qy (axisInFrame p a) * qy (axisInFrame p a)
     + qz (axisInFrame p a) * qz (axisInFrame p a) = norm2 p * norm2 p * Vector3_Dot a a"
  by (simp add: axisInFrame_def Quaternion_multiply_def Quaternion_Inverse_def norm2_def
      Vector3_Dot_def algebra_simps)

lemma delta_of_local_rotation:
  "Quaternion_multiply
     (Quaternion_multiply p \<lparr>qx = vx a * s, qy = vy a * s, qz = vz a * s, qw = c\<rparr>)
     (Quaternion_Inverse p)
   = \<lparr>qx = s * qx (axisInFrame p a), qy = s * qy (axisInFrame p a),
      qz = s * qz (axisInFrame p a), qw = c * norm2 p\<rparr>"
  by (simp add: axisInFrame_def Quaternion_multiply_def Quaternion_Inverse_def norm2_def
      algebra_simps)

lemma self_delta:
  "Quaternion_multiply q (Quaternion_Inverse q) = \<lparr>qx = 0, qy = 0, qz = 0, qw = norm2 q\<rparr>"
  by (simp add: Quaternion_multiply_def Quaternion_Inverse_def norm2_def algebra_simps)

lemma norm2_unit: "Quaternion_length q = 1 \<Longrightarrow> norm2 q = 1"
  by (simp add: Quaternion_length_def norm2_def)

text \<open>In exact arithmetic the delta of an orientation against itself has no vector part, the
  twist is the identity and the angle is 0. The program computes in doubles: there the vector
  part of the delta is a rounding residue, and the test \<open>dotProd < 0\<close> on it decides between
  the angles 0 and \<open>2 pi\<close>. The two lemmas below are about exact arithmetic and say nothing
  about which of the two the program returns.\<close>

lemma twist_of_self_delta:
  assumes "Quaternion_length q = 1"
  shows "getTwistForQuaternion (Quaternion_multiply q (Quaternion_Inverse q)) d
           = Quaternion_Identity"
  by (simp add: self_delta norm2_unit[OF assms] getTwistForQuaternion_def Vector3_Dot_def
      Vector3_scale_def Quaternion_normalize_def Quaternion_length_def Quaternion_Identity_def)

lemma same_frame_angle:
  assumes "Quaternion_length q = 1"
  shows "getDeltaRotationOnAxis q q a = Some 0"
  by (simp add: getDeltaRotationOnAxis_def Let_def twist_of_self_delta[OF assms]
      Quaternion_Identity_def Math_acos_def js_mul_def)

text \<open>The twist of a turn by \<open>t\<close> about the axis, seen from a unit start orientation: the
  projection has length \<open>|sin (t / 2)|\<close>, and the twist is negated when the sine is
  negative.\<close>

lemma local_rotation_twist:
  assumes p: "Quaternion_length p = 1" and a: "Vector3_length a = 1"
  shows "qw (getTwistForQuaternion
               (Quaternion_multiply (Quaternion_multiply p (Quaternion_RotationAxis a t))
                                    (Quaternion_Inverse p))
               \<lparr>vx = qx (axisInFrame p a), vy = qy (axisInFrame p a), vz = qz (axisInFrame p a)\<rparr>)
           = (if sin (t / 2) < 0 then - cos (t / 2) else cos (t / 2))"
proof -
  let ?u = "axisInFrame p a"
  have n: "norm2 p = 1" by (rule norm2_unit[OF p])
  have aa: "Vector3_Dot a a = 1" using a by (simp add: Vector3_length_def Vector3_Dot_def)
  have uu: "qx ?u * qx ?u + qy ?u * qy ?u + qz ?u * qz ?u = 1"
    by (simp add: axisInFrame_norm n aa)
  have R: "Quaternion_RotationAxis a t
             = \<lparr>qx = vx a * sin (t / 2), qy = vy a * sin (t / 2), qz = vz a * sin (t / 2),
                qw = cos (t / 2)\<rparr>"
    using a by (simp add: Quaternion_RotationAxis_def Vector3_normalize_def Let_def)
  have "Vector3_Dot \<lparr>vx = qx ?u, vy = qy ?u, vz = qz ?u\<rparr>
          \<lparr>vx = sin (t / 2) * qx ?u, vy = sin (t / 2) * qy ?u, vz = sin (t / 2) * qz ?u\<rparr>
        = sin (t / 2) * (qx ?u * qx ?u + qy ?u * qy ?u + qz ?u * qz ?u)"
    by (simp add: Vector3_Dot_def algebra_simps)
  then have dot: "Vector3_Dot \<lparr>vx = qx ?u, vy = qy ?u, vz = qz ?u\<rparr>
          \<lparr>vx = sin (t / 2) * qx ?u, vy = sin (t / 2) * qy ?u, vz = sin (t / 2) * qz ?u\<rparr>
        = sin (t / 2)"
    by (simp add: uu)
  have "qx ?u * sin (t / 2) * (qx ?u * sin (t / 2)) + qy ?u * sin (t / 2) * (qy ?u * sin (t / 2))
          + qz ?u * sin (t / 2) * (qz ?u * sin (t / 2)) + cos (t / 2) * cos (t / 2)
        = (qx ?u * qx ?u + qy ?u * qy ?u + qz ?u * qz ?u) * (sin (t / 2) * sin (t / 2))
          + cos (t / 2) * cos (t / 2)"
    by (simp add: algebra_simps)
  also have "\<dots> = 1"
    using sin_cos_squared_add[of "t / 2"] by (simp add: uu power2_eq_square)
  finally have len: "Quaternion_length
      \<lparr>qx = qx ?u * sin (t / 2), qy = qy ?u * sin (t / 2), qz = qz ?u * sin (t / 2),
       qw = cos (t / 2)\<rparr> = 1"
    by (simp add: Quaternion_length_def)
  have "qw (getTwistForQuaternion
              \<lparr>qx = sin (t / 2) * qx ?u, qy = sin (t / 2) * qy ?u, qz = sin (t / 2) * qz ?u,
               qw = cos (t / 2)\<rparr>
              \<lparr>vx = qx ?u, vy = qy ?u, vz = qz ?u\<rparr>)
            = (if sin (t / 2) < 0 then - cos (t / 2) else cos (t / 2))"
    by (simp add: getTwistForQuaternion_def Let_def dot Vector3_scale_def
        Quaternion_normalize_def len Quaternion_scale_def)
  then show ?thesis
    unfolding R delta_of_local_rotation n by simp
qed

lemma twist_of_local_rotation:
  assumes p: "Quaternion_length p = 1" and a: "Vector3_length a = 1" and s: "0 \<le> sin (t / 2)"
  shows "getDeltaRotationOnAxis p (Quaternion_multiply p (Quaternion_RotationAxis a t)) a
           = js_mul (Some 2) (Math_acos (cos (t / 2)))"
  using s local_rotation_twist[OF p a, of t]
  by (simp add: getDeltaRotationOnAxis_def Let_def axisInFrame_def)

lemma twist_of_backward_rotation:
  assumes p: "Quaternion_length p = 1" and a: "Vector3_length a = 1" and s: "sin (t / 2) < 0"
  shows "getDeltaRotationOnAxis p (Quaternion_multiply p (Quaternion_RotationAxis a t)) a
           = js_mul (Some 2) (Math_acos (- cos (t / 2)))"
  using s local_rotation_twist[OF p a, of t]
  by (simp add: getDeltaRotationOnAxis_def Let_def axisInFrame_def)

text \<open>A turn by \<open>t\<close> in \<open>[0, 2 pi]\<close> about the axis is extracted as \<open>t\<close>.\<close>

lemma forward_turn:
  assumes p: "Quaternion_length p = 1" and a: "Vector3_length a = 1"
      and t: "0 \<le> t" "t \<le> 2 * pi"
  shows "getDeltaRotationOnAxis p (Quaternion_multiply p (Quaternion_RotationAxis a t)) a = Some t"
proof -
  have s: "0 \<le> sin (t / 2)" by (rule sin_ge_zero) (use t in simp_all)
  have ac: "arccos (cos (t / 2)) = t / 2" by (rule arccos_cos) (use t in simp_all)
  have "Math_acos (cos (t / 2)) = Some (t / 2)"
    unfolding Math_acos_def ac using cos_ge_minus_one[of "t / 2"] cos_le_one[of "t / 2"] by simp
  with twist_of_local_rotation[OF p a s] show ?thesis by (simp add: js_mul_def)
qed

lemma identity_unit: "Quaternion_length Quaternion_Identity = 1"
  by (simp add: Quaternion_length_def Quaternion_Identity_def)

lemma identity_left: "Quaternion_multiply Quaternion_Identity q = q"
  by (simp add: Quaternion_multiply_def Quaternion_Identity_def)

lemma identity_inverse_left: "Quaternion_multiply (Quaternion_Inverse Quaternion_Identity) q = q"
  by (simp add: Quaternion_multiply_def Quaternion_Inverse_def Quaternion_Identity_def)

lemma turn_against_itself:
  assumes a: "Vector3_length a = 1"
  shows "Quaternion_multiply (Quaternion_Inverse (Quaternion_RotationAxis a t)) (Quaternion_RotationAxis a t)
           = Quaternion_Identity"
proof -
  have aa: "vx a * vx a + vy a * vy a + vz a * vz a = 1"
    using a by (simp add: Vector3_length_def)
  have "vx a * sin (t / 2) * (vx a * sin (t / 2)) + vy a * sin (t / 2) * (vy a * sin (t / 2))
          + vz a * sin (t / 2) * (vz a * sin (t / 2)) + cos (t / 2) * cos (t / 2)
        = (vx a * vx a + vy a * vy a + vz a * vz a) * (sin (t / 2) * sin (t / 2))
          + cos (t / 2) * cos (t / 2)"
    by (simp add: algebra_simps)
  also have "\<dots> = 1"
    using sin_cos_squared_add[of "t / 2"] by (simp add: aa power2_eq_square)
  finally show ?thesis
    using a by (simp add: Quaternion_RotationAxis_def Vector3_normalize_def Let_def
        Quaternion_multiply_def Quaternion_Inverse_def Quaternion_Identity_def)
qed

text \<open>The extractor is not continuous at a zero turn: a turn by \<open>theta\<close> against the axis,
  however small, is extracted as \<open>2 pi - theta\<close>. Its callers subtract \<open>2 pi\<close> from an
  angle above \<open>pi\<close> (the wheels) or from \<open>pi\<close> on (the servos), which turns \<open>2 pi - theta\<close>
  into \<open>- theta\<close> and \<open>2 pi\<close> into 0.\<close>

lemma small_backward_turn:
  assumes p: "Quaternion_length p = 1" and a: "Vector3_length a = 1"
      and th: "0 < theta" "theta < 2 * pi"
  shows "getDeltaRotationOnAxis p (Quaternion_multiply p (Quaternion_RotationAxis a (- theta))) a
           = Some (2 * pi - theta)"
proof -
  have s: "sin (- theta / 2) < 0"
  proof -
    have "0 < sin (theta / 2)" by (rule sin_gt_zero) (use th in simp_all)
    then show ?thesis by simp
  qed
  have c: "- cos (- theta / 2) = cos (pi - theta / 2)" by simp
  have ac: "arccos (cos (pi - theta / 2)) = pi - theta / 2"
    by (rule arccos_cos) (use th in simp_all)
  have "Math_acos (- cos (- theta / 2)) = Some (pi - theta / 2)"
    unfolding c Math_acos_def ac
    using cos_ge_minus_one[of "pi - theta / 2"] cos_le_one[of "pi - theta / 2"] by simp
  with twist_of_backward_rotation[OF p a s] show ?thesis
    by (simp add: js_mul_def)
qed

text \<open>The extractor always returns a number, between 0 and \<open>2 pi\<close>.\<close>

lemma normalize_w_range: "\<bar>qw (Quaternion_normalize q)\<bar> \<le> 1"
proof (cases "Quaternion_length q = 0")
  case True
  then have "qx q * qx q + qy q * qy q + qz q * qz q + qw q * qw q = 0"
    by (simp add: Quaternion_length_def)
  moreover have "0 \<le> qx q * qx q" "0 \<le> qy q * qy q" "0 \<le> qz q * qz q" "0 \<le> qw q * qw q"
    by simp_all
  ultimately have "qw q * qw q = 0" by linarith
  then have "qw q = 0" by simp
  with True show ?thesis by (simp add: Quaternion_normalize_def)
next
  case False
  have "qw q * qw q \<le> qx q * qx q + qy q * qy q + qz q * qz q + qw q * qw q"
    using zero_le_square[of "qx q"] zero_le_square[of "qy q"] zero_le_square[of "qz q"] by linarith
  then have "sqrt (qw q * qw q) \<le> Quaternion_length q"
    unfolding Quaternion_length_def by (rule real_sqrt_le_mono)
  then have le: "\<bar>qw q\<bar> \<le> Quaternion_length q" by simp
  have pos: "0 < Quaternion_length q"
    using False real_sqrt_ge_zero[of "qx q * qx q + qy q * qy q + qz q * qz q + qw q * qw q"]
    unfolding Quaternion_length_def
    by (metis add_nonneg_nonneg less_eq_real_def zero_le_square)
  have "\<bar>qw q * (1 / Quaternion_length q)\<bar> = \<bar>qw q\<bar> / Quaternion_length q"
    using pos by (simp add: abs_mult)
  also have "\<dots> \<le> 1" using le pos by simp
  finally show ?thesis using False by (simp add: Quaternion_normalize_def)
qed

lemma twist_w_range: "- 1 \<le> qw (getTwistForQuaternion q d) \<and> qw (getTwistForQuaternion q d) \<le> 1"
proof -
  let ?t = "Quaternion_normalize \<lparr>qx = vx (Vector3_scale d (Vector3_Dot d \<lparr>vx = qx q, vy = qy q, vz = qz q\<rparr>)),
              qy = vy (Vector3_scale d (Vector3_Dot d \<lparr>vx = qx q, vy = qy q, vz = qz q\<rparr>)),
              qz = vz (Vector3_scale d (Vector3_Dot d \<lparr>vx = qx q, vy = qy q, vz = qz q\<rparr>)), qw = qw q\<rparr>"
  have "\<bar>qw ?t\<bar> \<le> 1" by (rule normalize_w_range)
  then show ?thesis
    by (auto simp: getTwistForQuaternion_def Let_def Quaternion_scale_def)
qed

lemma extractor_total:
  "\<exists>r. getDeltaRotationOnAxis p c a = Some r \<and> 0 \<le> r \<and> r \<le> 2 * pi"
proof -
  let ?w = "qw (getTwistForQuaternion (Quaternion_multiply c (Quaternion_Inverse p))
     \<lparr>vx = qx (axisInFrame p a), vy = qy (axisInFrame p a), vz = qz (axisInFrame p a)\<rparr>)"
  have w: "- 1 \<le> ?w" "?w \<le> 1" using twist_w_range by blast+
  have "getDeltaRotationOnAxis p c a = Some (2 * arccos ?w)"
    using w by (simp add: getDeltaRotationOnAxis_def Let_def axisInFrame_def Math_acos_def js_mul_def)
  moreover have "0 \<le> 2 * arccos ?w" "2 * arccos ?w \<le> 2 * pi"
    using arccos_lbound[OF w] arccos_ubound[OF w] by simp_all
  ultimately show ?thesis by blast
qed

lemma raw_angle_range:
  assumes "getDeltaRotationOnAxis p c a = Some r"
  shows "0 \<le> r \<and> r \<le> 2 * pi"
  using extractor_total[of p c a] assms by auto


section \<open>Wheel drive: clamping and signs\<close>

lemma wheel_joints_after_drive:
  assumes "leftWheelJoint s = Some lj" and "rightWheelJoint s = Some rj"
  shows "leftWheelJoint (state_of (setDriveMotors s l r)) =
           Some (setMotor lj (js_div_const (js_max (Some (- MAX_MOTOR_VELOCITY))
                                                   (js_min l (Some MAX_MOTOR_VELOCITY))) 315) None)"
    and "rightWheelJoint (state_of (setDriveMotors s l r)) =
           Some (setMotor rj (js_div_const (js_neg (js_max (Some (- MAX_MOTOR_VELOCITY))
                                                   (js_min r (Some MAX_MOTOR_VELOCITY)))) 315) None)"
  using assms
  by (auto simp: setDriveMotors_def Let_def split: sum.splits)

text \<open>
  Claim C4. Each commanded wheel speed is clamped to \<open>[-1500, 1500]\<close> and divided by 315
  (the right wheel's command is negated), so a motor command given to a wheel joint never
  exceeds \<open>1500 / 315\<close> in magnitude, whatever the commanded speeds are.
\<close>

theorem setDriveMotors_clamps:
  assumes "leftWheelJoint s = Some lj" and "rightWheelJoint s = Some rj"
  shows "(\<forall>v. l = Some v \<longrightarrow>
            motor_target (leftWheelJoint (state_of (setDriveMotors s l r))) =
              Some (Some (max (- 1500) (min v 1500) / 315)))
       \<and> (\<forall>w. r = Some w \<longrightarrow>
            motor_target (rightWheelJoint (state_of (setDriveMotors s l r))) =
              Some (Some (- max (- 1500) (min w 1500) / 315)))
       \<and> (\<forall>x. motor_target (leftWheelJoint (state_of (setDriveMotors s l r))) = Some (Some x)
              \<longrightarrow> \<bar>x\<bar> \<le> 1500 / 315)
       \<and> (\<forall>x. motor_target (rightWheelJoint (state_of (setDriveMotors s l r))) = Some (Some x)
              \<longrightarrow> \<bar>x\<bar> \<le> 1500 / 315)"
  unfolding wheel_joints_after_drive[OF assms]
  by (cases l; cases r)
     (auto simp: motor_target_def setMotor_def MAX_MOTOR_VELOCITY_def js_div_const_def js_max_def
                 js_min_def js_neg_def)

theorem setDriveMotors_clamps_witness:
  "leftWheelJoint restingRig = Some \<lparr>motor = None\<rparr>
   \<and> rightWheelJoint restingRig = Some \<lparr>motor = None\<rparr>
   \<and> motor_target (leftWheelJoint (state_of (setDriveMotors restingRig (Some 2000) (Some (- 9000)))))
       = Some (Some (1500 / 315))
   \<and> motor_target (rightWheelJoint (state_of (setDriveMotors restingRig (Some 2000) (Some (- 9000)))))
       = Some (Some (1500 / 315))"
proof -
  have l: "leftWheelJoint restingRig = Some \<lparr>motor = None\<rparr>" by (simp add: restingRig_def)
  have r: "rightWheelJoint restingRig = Some \<lparr>motor = None\<rparr>" by (simp add: restingRig_def)
  from setDriveMotors_clamps[OF l r, of "Some 2000" "Some (- 9000)"] l r show ?thesis by simp
qed

text \<open>
  Claim C5, as the spec states it, fails: with \<open>leftSpeed = 315\<close> and
  \<open>rightSpeed = -315\<close> both wheel joints receive the command \<open>1\<close>, the same sign.
\<close>

theorem setDriveMotors_mirrored_speeds_counterexample:
  "motor_target (leftWheelJoint (state_of (setDriveMotors restingRig (Some 315) (Some (- 315)))))
     = Some (Some 1)
   \<and> motor_target (rightWheelJoint (state_of (setDriveMotors restingRig (Some 315) (Some (- 315)))))
     = Some (Some 1)
   \<and> motor_target (rightWheelJoint (state_of (setDriveMotors restingRig (Some 315) (Some (- 315)))))
     \<noteq> Some (Some (- 1))"
  by (simp add: setDriveMotors_def restingRig_def Let_def js_eq_def js_max_def js_min_def
      js_div_const_def js_neg_def MAX_MOTOR_VELOCITY_def setMotor_def motor_target_def)

text \<open>
  Claim C5, amended. For every speed \<open>v\<close> within the clamping range, driving the wheels
  with \<open>leftSpeed = v\<close> and \<open>rightSpeed = v\<close> gives the two wheel joints commands of equal
  magnitude and opposite sign, \<open>v / 315\<close> and \<open>- v / 315\<close> (the joints are built on mirrored
  axes, so this is driving straight); with \<open>leftSpeed = v\<close> and \<open>rightSpeed = - v\<close> both
  joints receive the same command \<open>v / 315\<close>.
\<close>

theorem setDriveMotors_sign_symmetry:
  assumes "leftWheelJoint s = Some lj" and "rightWheelJoint s = Some rj"
      and "- 1500 \<le> v" and "v \<le> 1500"
  shows "motor_target (leftWheelJoint (state_of (setDriveMotors s (Some v) (Some v)))) = Some (Some (v / 315))
       \<and> motor_target (rightWheelJoint (state_of (setDriveMotors s (Some v) (Some v)))) = Some (Some (- (v / 315)))
       \<and> motor_target (leftWheelJoint (state_of (setDriveMotors s (Some v) (Some (- v))))) = Some (Some (v / 315))
       \<and> motor_target (rightWheelJoint (state_of (setDriveMotors s (Some v) (Some (- v))))) = Some (Some (v / 315))"
  unfolding wheel_joints_after_drive[OF assms(1,2)]
  using assms(3,4)
  by (simp add: motor_target_def setMotor_def MAX_MOTOR_VELOCITY_def js_div_const_def js_max_def
                 js_min_def js_neg_def)

theorem setDriveMotors_sign_symmetry_witness:
  "leftWheelJoint restingRig = Some \<lparr>motor = None\<rparr>
   \<and> rightWheelJoint restingRig = Some \<lparr>motor = None\<rparr>
   \<and> (- 1500 :: real) \<le> 630 \<and> (630 :: real) \<le> 1500
   \<and> motor_target (leftWheelJoint (state_of (setDriveMotors restingRig (Some 630) (Some 630)))) = Some (Some 2)
   \<and> motor_target (rightWheelJoint (state_of (setDriveMotors restingRig (Some 630) (Some 630)))) = Some (Some (- 2))
   \<and> motor_target (leftWheelJoint (state_of (setDriveMotors restingRig (Some 630) (Some (- 630))))) = Some (Some 2)
   \<and> motor_target (rightWheelJoint (state_of (setDriveMotors restingRig (Some 630) (Some (- 630))))) = Some (Some 2)"
proof -
  have l: "leftWheelJoint restingRig = Some \<lparr>motor = None\<rparr>" by (simp add: restingRig_def)
  have r: "rightWheelJoint restingRig = Some \<lparr>motor = None\<rparr>" by (simp add: restingRig_def)
  have b: "(- 1500 :: real) \<le> 630" "(630 :: real) \<le> 1500" by simp_all
  from setDriveMotors_sign_symmetry[OF l r b] l r show ?thesis by simp
qed

section \<open>Swing-twist extraction: the wrap of the wheel angle\<close>

lemma wheel_axis_unit: "Vector3_length wheelRotationVector = 1"
  by (simp add: Vector3_length_def wheelRotationVector_def)

text \<open>A wheel turned by less than half a turn against the wheel axis is reported with a
  negative angle.\<close>

lemma backward_wheel_turn:
  assumes p: "Quaternion_length p = 1" and th: "0 < theta" "theta < pi"
  shows "wheelRotation p
           (Quaternion_multiply p (Quaternion_RotationAxis wheelRotationVector (- theta)))
         = Some (- theta)"
proof -
  have "theta < 2 * pi" using th by simp
  from small_backward_turn[OF p wheel_axis_unit th(1) this]
  have raw: "getDeltaRotationOnAxis p
          (Quaternion_multiply p (Quaternion_RotationAxis wheelRotationVector (- theta)))
          wheelRotationVector = Some (2 * pi - theta)" .
  have "pi < 2 * pi - theta" using th by simp
  then show ?thesis
    unfolding wheelRotation_def Let_def raw by (simp add: js_gt_def js_sub_def)
qed

text \<open>
  Claim C3. The after-render callback subtracts \<open>2 pi\<close> from the extracted wheel angle
  exactly when it exceeds \<open>pi\<close>; every delta it reports lies in \<open>(-pi, pi]\<close>; and when a
  wheel has turned by \<open>3 pi / 2\<close> about the wheel axis since the previous frame, the
  extractor returns \<open>3 pi / 2\<close> and the reported delta is \<open>- pi / 2\<close>.
\<close>

theorem wheelRotation_wrap:
  "(\<forall>raw. getDeltaRotationOnAxis rotPrev rotCurr wheelRotationVector = Some raw \<longrightarrow>
       wheelRotation rotPrev rotCurr = Some (if raw > pi then raw - 2 * pi else raw))
   \<and> (\<forall>d. wheelRotation rotPrev rotCurr = Some d \<longrightarrow> - pi < d \<and> d \<le> pi)
   \<and> (Quaternion_length rotPrev = 1 \<longrightarrow>
        getDeltaRotationOnAxis rotPrev
          (Quaternion_multiply rotPrev (Quaternion_RotationAxis wheelRotationVector (3 * pi / 2)))
          wheelRotationVector = Some (3 * pi / 2)
        \<and> wheelRotation rotPrev
          (Quaternion_multiply rotPrev (Quaternion_RotationAxis wheelRotationVector (3 * pi / 2)))
          = Some (- (pi / 2)))"
proof (intro conjI allI impI)
  fix raw assume "getDeltaRotationOnAxis rotPrev rotCurr wheelRotationVector = Some raw"
  then show "wheelRotation rotPrev rotCurr = Some (if raw > pi then raw - 2 * pi else raw)"
    by (simp add: wheelRotation_def Let_def js_gt_def js_sub_def)
next
  fix d assume d: "wheelRotation rotPrev rotCurr = Some d"
  then obtain raw where raw: "getDeltaRotationOnAxis rotPrev rotCurr wheelRotationVector = Some raw"
    by (cases "getDeltaRotationOnAxis rotPrev rotCurr wheelRotationVector")
       (auto simp: wheelRotation_def Let_def js_gt_def js_sub_def)
  have d': "d = (if raw > pi then raw - 2 * pi else raw)"
    using d raw by (simp add: wheelRotation_def Let_def js_gt_def js_sub_def split: if_splits)
  have np: "- pi < 0" by simp
  note rng = raw_angle_range[OF raw]
  have "- pi < d \<and> d \<le> pi"
  proof (cases "raw > pi")
    case True
    then have "d = raw - 2 * pi" using d' by simp
    with True rng np show ?thesis by linarith
  next
    case False
    then have "d = raw" using d' by simp
    with False rng np show ?thesis by linarith
  qed
  then show "- pi < d" "d \<le> pi" by simp_all
next
  assume p: "Quaternion_length rotPrev = 1"
  have s: "0 \<le> sin (3 * pi / 2 / 2)"
    by (rule sin_ge_zero) (simp_all add: field_simps)
  have c: "arccos (cos (3 * pi / 2 / 2)) = 3 * pi / 2 / 2"
    by (rule arccos_cos) (simp_all add: field_simps)
  have "Math_acos (cos (3 * pi / 2 / 2)) = Some (3 * pi / 2 / 2)"
    unfolding Math_acos_def c using cos_ge_minus_one[of "3 * pi / 2 / 2"] cos_le_one[of "3 * pi / 2 / 2"] by simp
  with twist_of_local_rotation[OF p wheel_axis_unit s]
  show raw: "getDeltaRotationOnAxis rotPrev
          (Quaternion_multiply rotPrev (Quaternion_RotationAxis wheelRotationVector (3 * pi / 2)))
          wheelRotationVector = Some (3 * pi / 2)"
    by (simp add: js_mul_def)
  have "pi < 3 * pi / 2" using pi_gt_zero by simp
  then show "wheelRotation rotPrev
          (Quaternion_multiply rotPrev (Quaternion_RotationAxis wheelRotationVector (3 * pi / 2)))
          = Some (- (pi / 2))"
    unfolding wheelRotation_def Let_def raw by (simp add: js_gt_def js_sub_def)
qed

theorem wheelRotation_wrap_witness:
  "Quaternion_length Quaternion_Identity = 1
   \<and> wheelRotation Quaternion_Identity
       (Quaternion_multiply Quaternion_Identity (Quaternion_RotationAxis wheelRotationVector (3 * pi / 2)))
       = Some (- (pi / 2))
   \<and> - pi < - (pi / 2) \<and> - (pi / 2) \<le> pi"
proof -
  have h: "Quaternion_length Quaternion_Identity = 1"
    by (simp add: Quaternion_length_def Quaternion_Identity_def)
  let ?c = "Quaternion_multiply Quaternion_Identity (Quaternion_RotationAxis wheelRotationVector (3 * pi / 2))"
  from wheelRotation_wrap[of Quaternion_Identity ?c] h
  show ?thesis by simp
qed

section \<open>Servo drive: the three tiers\<close>

lemma driveServo_tiers:
  "motor (driveServo j (Some x) sg f) =
       Some (if x < 0.01 then SetMotor (Some 0) None
             else if 0.001 \<le> x \<and> x \<le> 0.04 then SetMotor (Some (sg * 1.2)) (Some f)
             else SetMotor (Some (sg * 6)) (Some f))"
  by (simp add: driveServo_def js_lt_def js_ge_def js_le_def setMotor_def)

text \<open>The rotation of a servo against its baseline is the extracted angle, reduced by
  \<open>2 pi\<close> from \<open>pi\<close> on.\<close>

lemma servoRotation_value:
  "\<exists>raw. getDeltaRotationOnAxis d (Quaternion_multiply (Quaternion_Inverse parent) child) axis = Some raw
       \<and> servoRotation d parent child axis = Some (if raw \<ge> pi then raw - 2 * pi else raw)"
proof -
  from extractor_total[of d "Quaternion_multiply (Quaternion_Inverse parent) child" axis]
  obtain raw where
    raw: "getDeltaRotationOnAxis d (Quaternion_multiply (Quaternion_Inverse parent) child) axis = Some raw"
    by blast
  then have "servoRotation d parent child axis = Some (if raw \<ge> pi then raw - 2 * pi else raw)"
    by (simp add: servoRotation_def Let_def js_ge_def js_sub_def)
  with raw show ?thesis by blast
qed

lemma armDelta_value:
  "js_index goals 0 = Some g0 \<Longrightarrow>
   armDelta (Some r) goals = Some (r + 87.5 * pi / 180 - g0 / (2048 / (2 * (87.5 * pi / 180))))"
  by (simp add: armDelta_def js_add_def js_sub_def js_div_const_def
      ARM_DEFAULT_ROTATION_def SERVO_TICKS_PER_RADIAN_def SERVO_DEFUALT_RADIANS_def)

lemma clawDelta_value:
  "js_index goals 3 = Some g3 \<Longrightarrow>
   clawDelta (Some r) goals = Some (r - 175 * pi / 180 + g3 / (2048 / (2 * (87.5 * pi / 180))))"
  by (simp add: clawDelta_def js_add_def js_sub_def js_div_const_def
      CLAW_DEFAULT_ROTATION_def SERVO_TICKS_PER_RADIAN_def SERVO_DEFUALT_RADIANS_def)

lemma deltaNorm_value: "deltaNorm (Some d) = Some \<bar>d / (87.5 * pi / 180 * 2)\<bar>"
  by (simp add: deltaNorm_def js_abs_def js_div_const_def SERVO_DEFUALT_RADIANS_def)

lemma armSign_value: "armSign (Some d) = (if 0 \<le> d then 1 else - 1)"
  by (simp add: armSign_def js_ge_def)

lemma clawSign_value: "clawSign (Some d) = (if 0 \<le> d then - 1 else 1)"
  by (simp add: clawSign_def js_ge_def)

text \<open>The deltas as fractions of the servo's range of \<open>175\<close> degrees: the arm's is its
  position in the range minus the goal's share of 2048 ticks, the claw's is the goal's share
  minus what the claw lacks to the end of the range.\<close>

lemma arm_fraction:
  "(r + 87.5 * pi / 180 - g0 / (2048 / (2 * (87.5 * pi / 180)))) / (87.5 * pi / 180 * 2)
     = (r + 87.5 * pi / 180) / (175 * pi / 180) - g0 / 2048"
  by (simp add: field_simps)

lemma claw_fraction:
  "(r - 175 * pi / 180 + g3 / (2048 / (2 * (87.5 * pi / 180)))) / (87.5 * pi / 180 * 2)
     = g3 / 2048 - (175 * pi / 180 - r) / (175 * pi / 180)"
  by (simp add: field_simps)

lemma range_sign: "(0 \<le> d) = (0 \<le> d / (87.5 * pi / 180 * 2))"
proof -
  have "\<not> pi \<le> 0" using pi_gt_zero by linarith
  then show ?thesis by (auto simp: zero_le_divide_iff)
qed

text \<open>A goal array that lacks channel 0 or channel 3 makes the delta \<open>NaN\<close>: no
  comparison holds, and the joint is driven at 6 with the sign of the negative case.\<close>

lemma setServoPositions_goal_missing:
  assumes "bodyCompoundRootMesh s = Some body" and "armCompoundRootMesh s = Some arm"
      and "clawCompoundRootMesh s = Some claw" and "armJoint s = Some aj" and "clawJoint s = Some cj"
      and "js_index goals 0 = None" and "js_index goals 3 = None"
  shows "\<exists>aj' cj'. setServoPositions s goals = Done (s\<lparr>armJoint := Some aj', clawJoint := Some cj'\<rparr>)
       \<and> motor aj' = Some (SetMotor (Some (- 6)) (Some 8000))
       \<and> motor cj' = Some (SetMotor (Some 6) (Some 2000))"
proof -
  have a: "armDelta r goals = None" for r
    using assms(6) by (simp add: armDelta_def js_sub_def js_div_const_def split: option.splits)
  have c: "clawDelta r goals = None" for r
    using assms(7) by (simp add: clawDelta_def js_add_def js_div_const_def split: option.splits)
  have n: "deltaNorm None = None" by (simp add: deltaNorm_def js_abs_def js_div_const_def)
  have d: "motor (driveServo j None sg f) = Some (SetMotor (Some (sg * 6)) (Some f))" for j sg f
    by (simp add: driveServo_def js_lt_def js_ge_def js_le_def setMotor_def)
  have "setServoPositions s goals =
          Done (s\<lparr>armJoint := Some (driveServo aj None (- 1) 8000),
                  clawJoint := Some (driveServo cj None 1 2000)\<rparr>)"
    using assms(1-5)
    by (simp add: setServoPositions_def Let_def a c n armSign_def clawSign_def js_ge_def)
  moreover have "motor (driveServo aj None (- 1) 8000) = Some (SetMotor (Some (- 6)) (Some 8000))"
    by (simp add: d)
  moreover have "motor (driveServo cj None 1 2000) = Some (SetMotor (Some 6) (Some 2000))"
    by (simp add: d)
  ultimately show ?thesis by blast
qed

text \<open>
  Claim C1. Given the three meshes, the two joints and the goals of channels 0 and 3,
  \<open>setServoPositions\<close> returns, and for the arm and for the claw it does the following.
  The current rotation is the angle extracted between the baseline and the current
  orientation of the servo relative to its parent (the arm to the body about the arm axis,
  the claw to the arm about the claw axis), reduced by \<open>2 pi\<close> from \<open>pi\<close> on. The arm's
  delta is the rotation plus the default \<open>87.5\<close> degrees minus the goal converted from ticks
  to radians (2048 ticks for \<open>175\<close> degrees); the claw's delta is the rotation minus the default
  \<open>175\<close> degrees plus the converted goal. The normalised delta is the absolute value of the
  delta divided by \<open>175\<close> degrees; as a fraction of the range it is the distance between
  the servo's position and the goal's share of 2048 ticks. The joint is commanded by three
  tiers, tested in this order: below 0.01 the motor is set to 0 with no force limit; else,
  within \<open>[0.001, 0.04]\<close>, it is driven at 1.2 with the force limit; otherwise at 6 with the
  same force limit (8000 for the arm, 2000 for the claw). The sign of the command is decided
  by the side of the goal the servo is on: the arm is driven with a positive command when
  its position is at or past the goal and with a negative one when it is short of it, the
  claw the other way round. A delta of 0 gives the stop command.
\<close>

theorem setServoPositions_three_tier:
  assumes "bodyCompoundRootMesh s = Some body" and "armCompoundRootMesh s = Some arm"
      and "clawCompoundRootMesh s = Some claw" and "armJoint s = Some aj" and "clawJoint s = Some cj"
      and "js_index goals 0 = Some g0" and "js_index goals 3 = Some g3"
  shows "\<exists>armRaw armRotation armD armN clawRaw clawRotation clawD clawN aj' cj'.
      getDeltaRotationOnAxis (armRotationDefault s)
        (Quaternion_multiply (Quaternion_Inverse (rotationQuaternion body)) (rotationQuaternion arm))
        armRotationVector = Some armRaw
    \<and> armRotation = (if armRaw \<ge> pi then armRaw - 2 * pi else armRaw)
    \<and> armD = armRotation + 87.5 * pi / 180 - g0 / (2048 / (2 * (87.5 * pi / 180)))
    \<and> armN = \<bar>armD / (87.5 * pi / 180 * 2)\<bar>
    \<and> armN = \<bar>(armRotation + 87.5 * pi / 180) / (175 * pi / 180) - g0 / 2048\<bar>
    \<and> (0 \<le> armD) = (g0 / 2048 \<le> (armRotation + 87.5 * pi / 180) / (175 * pi / 180))
    \<and> getDeltaRotationOnAxis (clawRotationDefault s)
        (Quaternion_multiply (Quaternion_Inverse (rotationQuaternion arm)) (rotationQuaternion claw))
        clawRotationVector = Some clawRaw
    \<and> clawRotation = (if clawRaw \<ge> pi then clawRaw - 2 * pi else clawRaw)
    \<and> clawD = clawRotation - 175 * pi / 180 + g3 / (2048 / (2 * (87.5 * pi / 180)))
    \<and> clawN = \<bar>clawD / (87.5 * pi / 180 * 2)\<bar>
    \<and> clawN = \<bar>g3 / 2048 - (175 * pi / 180 - clawRotation) / (175 * pi / 180)\<bar>
    \<and> (0 \<le> clawD) = ((175 * pi / 180 - clawRotation) / (175 * pi / 180) \<le> g3 / 2048)
    \<and> setServoPositions s goals = Done (s\<lparr>armJoint := Some aj', clawJoint := Some cj'\<rparr>)
    \<and> motor aj' =
          Some (if armN < 0.01 then SetMotor (Some 0) None
                else if 0.001 \<le> armN \<and> armN \<le> 0.04
                     then SetMotor (Some ((if 0 \<le> armD then 1 else - 1) * 1.2)) (Some 8000)
                     else SetMotor (Some ((if 0 \<le> armD then 1 else - 1) * 6)) (Some 8000))
    \<and> motor cj' =
          Some (if clawN < 0.01 then SetMotor (Some 0) None
                else if 0.001 \<le> clawN \<and> clawN \<le> 0.04
                     then SetMotor (Some ((if 0 \<le> clawD then - 1 else 1) * 1.2)) (Some 2000)
                     else SetMotor (Some ((if 0 \<le> clawD then - 1 else 1) * 6)) (Some 2000))
    \<and> (armD = 0 \<longrightarrow> motor aj' = Some (SetMotor (Some 0) None))
    \<and> (clawD = 0 \<longrightarrow> motor cj' = Some (SetMotor (Some 0) None))"
proof -
  let ?armCurr = "Quaternion_multiply (Quaternion_Inverse (rotationQuaternion body)) (rotationQuaternion arm)"
  let ?clawCurr = "Quaternion_multiply (Quaternion_Inverse (rotationQuaternion arm)) (rotationQuaternion claw)"
  from servoRotation_value[of "armRotationDefault s" "rotationQuaternion body" "rotationQuaternion arm" armRotationVector]
  obtain armRaw where
    ar: "getDeltaRotationOnAxis (armRotationDefault s) ?armCurr armRotationVector = Some armRaw"
        "servoRotation (armRotationDefault s) (rotationQuaternion body) (rotationQuaternion arm) armRotationVector
           = Some (if armRaw \<ge> pi then armRaw - 2 * pi else armRaw)"
    by blast
  from servoRotation_value[of "clawRotationDefault s" "rotationQuaternion arm" "rotationQuaternion claw" clawRotationVector]
  obtain clawRaw where
    cr: "getDeltaRotationOnAxis (clawRotationDefault s) ?clawCurr clawRotationVector = Some clawRaw"
        "servoRotation (clawRotationDefault s) (rotationQuaternion arm) (rotationQuaternion claw) clawRotationVector
           = Some (if clawRaw \<ge> pi then clawRaw - 2 * pi else clawRaw)"
    by blast
  define armRotation where "armRotation = (if armRaw \<ge> pi then armRaw - 2 * pi else armRaw)"
  define clawRotation where "clawRotation = (if clawRaw \<ge> pi then clawRaw - 2 * pi else clawRaw)"
  define armD where "armD = armRotation + 87.5 * pi / 180 - g0 / (2048 / (2 * (87.5 * pi / 180)))"
  define clawD where "clawD = clawRotation - 175 * pi / 180 + g3 / (2048 / (2 * (87.5 * pi / 180)))"
  define armN where "armN = \<bar>armD / (87.5 * pi / 180 * 2)\<bar>"
  define clawN where "clawN = \<bar>clawD / (87.5 * pi / 180 * 2)\<bar>"
  define aj' where "aj' = driveServo aj (Some armN) (if 0 \<le> armD then 1 else - 1) 8000"
  define cj' where "cj' = driveServo cj (Some clawN) (if 0 \<le> clawD then - 1 else 1) 2000"
  have aD: "armDelta (servoRotation (armRotationDefault s) (rotationQuaternion body) (rotationQuaternion arm)
                        armRotationVector) goals = Some armD"
    unfolding ar(2) armD_def armRotation_def by (rule armDelta_value[OF assms(6)])
  have cD: "clawDelta (servoRotation (clawRotationDefault s) (rotationQuaternion arm) (rotationQuaternion claw)
                        clawRotationVector) goals = Some clawD"
    unfolding cr(2) clawD_def clawRotation_def by (rule clawDelta_value[OF assms(7)])
  have run: "setServoPositions s goals = Done (s\<lparr>armJoint := Some aj', clawJoint := Some cj'\<rparr>)"
    using assms(1-5)
    by (simp add: setServoPositions_def Let_def aD cD deltaNorm_value armSign_value clawSign_value
        aj'_def cj'_def armN_def clawN_def)
  have an: "armN = \<bar>(armRotation + 87.5 * pi / 180) / (175 * pi / 180) - g0 / 2048\<bar>"
    unfolding armN_def armD_def arm_fraction ..
  have cn: "clawN = \<bar>g3 / 2048 - (175 * pi / 180 - clawRotation) / (175 * pi / 180)\<bar>"
    unfolding clawN_def clawD_def claw_fraction ..
  have asg: "(0 \<le> armD) = (g0 / 2048 \<le> (armRotation + 87.5 * pi / 180) / (175 * pi / 180))"
    unfolding range_sign[of armD] unfolding armD_def arm_fraction by simp
  have csg: "(0 \<le> clawD) = ((175 * pi / 180 - clawRotation) / (175 * pi / 180) \<le> g3 / 2048)"
    unfolding range_sign[of clawD] unfolding clawD_def claw_fraction by simp
  have ma: "motor aj' =
          Some (if armN < 0.01 then SetMotor (Some 0) None
                else if 0.001 \<le> armN \<and> armN \<le> 0.04
                     then SetMotor (Some ((if 0 \<le> armD then 1 else - 1) * 1.2)) (Some 8000)
                     else SetMotor (Some ((if 0 \<le> armD then 1 else - 1) * 6)) (Some 8000))"
    unfolding aj'_def by (rule driveServo_tiers)
  have mc: "motor cj' =
          Some (if clawN < 0.01 then SetMotor (Some 0) None
                else if 0.001 \<le> clawN \<and> clawN \<le> 0.04
                     then SetMotor (Some ((if 0 \<le> clawD then - 1 else 1) * 1.2)) (Some 2000)
                     else SetMotor (Some ((if 0 \<le> clawD then - 1 else 1) * 6)) (Some 2000))"
    unfolding cj'_def by (rule driveServo_tiers)
  have a0: "armD = 0 \<longrightarrow> motor aj' = Some (SetMotor (Some 0) None)"
    unfolding ma by (simp add: armN_def)
  have c0: "clawD = 0 \<longrightarrow> motor cj' = Some (SetMotor (Some 0) None)"
    unfolding mc by (simp add: clawN_def)
  from ar(1) armRotation_def armD_def armN_def an asg cr(1) clawRotation_def clawD_def clawN_def cn csg
       run ma mc a0 c0
  show ?thesis by blast
qed


lemma arm_axis_unit: "Vector3_length armRotationVector = 1"
  by (simp add: Vector3_length_def armRotationVector_def)

lemma claw_axis_unit: "Vector3_length clawRotationVector = 1"
  by (simp add: Vector3_length_def clawRotationVector_def)

theorem setServoPositions_three_tier_witness:
  "(\<exists>aj' cj'. setServoPositions restingRig [Some 1024, Some 0, Some 0, Some 2048]
                  = Done (restingRig\<lparr>armJoint := Some aj', clawJoint := Some cj'\<rparr>)
        \<and> motor aj' = Some (SetMotor (Some 0) None)
        \<and> motor cj' = Some (SetMotor (Some 0) None))
   \<and> (\<exists>aj' cj'. setServoPositions restingRig [Some 1000, Some 0, Some 0, Some 2000]
                  = Done (restingRig\<lparr>armJoint := Some aj', clawJoint := Some cj'\<rparr>)
        \<and> motor aj' = Some (SetMotor (Some 1.2) (Some 8000))
        \<and> motor cj' = Some (SetMotor (Some 1.2) (Some 2000)))
   \<and> (\<exists>aj' cj'. setServoPositions restingRig [Some 2048, Some 0, Some 0, Some 0]
                  = Done (restingRig\<lparr>armJoint := Some aj', clawJoint := Some cj'\<rparr>)
        \<and> motor aj' = Some (SetMotor (Some (- 6)) (Some 8000))
        \<and> motor cj' = Some (SetMotor (Some 6) (Some 2000)))
   \<and> (\<exists>aj' cj'. setServoPositions turnedArmRig [Some 0, Some 0, Some 0, Some 2048]
                  = Done (turnedArmRig\<lparr>armJoint := Some aj', clawJoint := Some cj'\<rparr>)
        \<and> motor aj' = Some (SetMotor (Some (- 1.2)) (Some 8000))
        \<and> motor cj' = Some (SetMotor (Some 0) None))
   \<and> (\<exists>aj' cj'. setServoPositions turnedClawRig [Some 1024, Some 0, Some 0, Some 2048]
                  = Done (turnedClawRig\<lparr>armJoint := Some aj', clawJoint := Some cj'\<rparr>)
        \<and> motor aj' = Some (SetMotor (Some 0) None)
        \<and> motor cj' = Some (SetMotor (Some (- 6)) (Some 2000)))"
proof -
  have inst: "\<exists>aj' cj'. setServoPositions rig [Some g0, Some 0, Some 0, Some g3]
                  = Done (rig\<lparr>armJoint := Some aj', clawJoint := Some cj'\<rparr>)
        \<and> motor aj' =
          Some (if \<bar>(ar + 87.5 * pi / 180) / (175 * pi / 180) - g0 / 2048\<bar> < 0.01
                then SetMotor (Some 0) None
                else if 0.001 \<le> \<bar>(ar + 87.5 * pi / 180) / (175 * pi / 180) - g0 / 2048\<bar>
                        \<and> \<bar>(ar + 87.5 * pi / 180) / (175 * pi / 180) - g0 / 2048\<bar> \<le> 0.04
                     then SetMotor (Some ((if g0 / 2048 \<le> (ar + 87.5 * pi / 180) / (175 * pi / 180)
                                           then 1 else - 1) * 1.2)) (Some 8000)
                     else SetMotor (Some ((if g0 / 2048 \<le> (ar + 87.5 * pi / 180) / (175 * pi / 180)
                                           then 1 else - 1) * 6)) (Some 8000))
        \<and> motor cj' =
          Some (if \<bar>g3 / 2048 - (175 * pi / 180 - cr) / (175 * pi / 180)\<bar> < 0.01
                then SetMotor (Some 0) None
                else if 0.001 \<le> \<bar>g3 / 2048 - (175 * pi / 180 - cr) / (175 * pi / 180)\<bar>
                        \<and> \<bar>g3 / 2048 - (175 * pi / 180 - cr) / (175 * pi / 180)\<bar> \<le> 0.04
                     then SetMotor (Some ((if (175 * pi / 180 - cr) / (175 * pi / 180) \<le> g3 / 2048
                                           then - 1 else 1) * 1.2)) (Some 2000)
                     else SetMotor (Some ((if (175 * pi / 180 - cr) / (175 * pi / 180) \<le> g3 / 2048
                                           then - 1 else 1) * 6)) (Some 2000))"
    if m: "bodyCompoundRootMesh rig = Some body" "armCompoundRootMesh rig = Some arm"
          "clawCompoundRootMesh rig = Some claw"
          "armJoint rig = Some \<lparr>motor = None\<rparr>" "clawJoint rig = Some \<lparr>motor = None\<rparr>"
      and a: "getDeltaRotationOnAxis (armRotationDefault rig)
                (Quaternion_multiply (Quaternion_Inverse (rotationQuaternion body)) (rotationQuaternion arm))
                armRotationVector = Some araw"
             "ar = (if araw \<ge> pi then araw - 2 * pi else araw)"
      and c: "getDeltaRotationOnAxis (clawRotationDefault rig)
                (Quaternion_multiply (Quaternion_Inverse (rotationQuaternion arm)) (rotationQuaternion claw))
                clawRotationVector = Some craw"
             "cr = (if craw \<ge> pi then craw - 2 * pi else craw)"
    for rig body arm claw g0 g3 araw ar craw cr
  proof -
    have g: "js_index [Some g0, Some 0, Some 0, Some g3] 0 = Some g0"
            "js_index [Some g0, Some 0, Some 0, Some g3] 3 = Some g3"
      by (simp_all add: js_index_def)
    from setServoPositions_three_tier[OF m g]
    obtain armRaw armRotation armN clawRaw clawRotation clawN aj' cj' and armD clawD :: real where
      h: "getDeltaRotationOnAxis (armRotationDefault rig)
            (Quaternion_multiply (Quaternion_Inverse (rotationQuaternion body)) (rotationQuaternion arm))
            armRotationVector = Some armRaw"
         "armRotation = (if armRaw \<ge> pi then armRaw - 2 * pi else armRaw)"
         "armN = \<bar>(armRotation + 87.5 * pi / 180) / (175 * pi / 180) - g0 / 2048\<bar>"
         "(0 \<le> armD) = (g0 / 2048 \<le> (armRotation + 87.5 * pi / 180) / (175 * pi / 180))"
         "getDeltaRotationOnAxis (clawRotationDefault rig)
            (Quaternion_multiply (Quaternion_Inverse (rotationQuaternion arm)) (rotationQuaternion claw))
            clawRotationVector = Some clawRaw"
         "clawRotation = (if clawRaw \<ge> pi then clawRaw - 2 * pi else clawRaw)"
         "clawN = \<bar>g3 / 2048 - (175 * pi / 180 - clawRotation) / (175 * pi / 180)\<bar>"
         "(0 \<le> clawD) = ((175 * pi / 180 - clawRotation) / (175 * pi / 180) \<le> g3 / 2048)"
         "setServoPositions rig [Some g0, Some 0, Some 0, Some g3]
            = Done (rig\<lparr>armJoint := Some aj', clawJoint := Some cj'\<rparr>)"
         "motor aj' =
          Some (if armN < 0.01 then SetMotor (Some 0) None
                else if 0.001 \<le> armN \<and> armN \<le> 0.04
                     then SetMotor (Some ((if 0 \<le> armD then 1 else - 1) * 1.2)) (Some 8000)
                     else SetMotor (Some ((if 0 \<le> armD then 1 else - 1) * 6)) (Some 8000))"
         "motor cj' =
          Some (if clawN < 0.01 then SetMotor (Some 0) None
                else if 0.001 \<le> clawN \<and> clawN \<le> 0.04
                     then SetMotor (Some ((if 0 \<le> clawD then - 1 else 1) * 1.2)) (Some 2000)
                     else SetMotor (Some ((if 0 \<le> clawD then - 1 else 1) * 6)) (Some 2000))"
      by blast
    have ea: "armRotation = ar" using h(1,2) a by simp
    have ec: "clawRotation = cr" using h(5,6) c by simp
    show ?thesis
      using h(9) h(10)[unfolded h(3) h(4) ea] h(11)[unfolded h(7) h(8) ec] by blast
  qed
  have np: "\<not> pi \<le> 0" using pi_gt_zero by linarith
  have half: "(0 + 87.5 * pi / 180) / (175 * pi / 180) = 1 / 2" by simp
  have full: "(175 * pi / 180 - 0) / (175 * pi / 180) = 1" by simp
  have short: "(3 * pi / 2 - 2 * pi + 87.5 * pi / 180) / (175 * pi / 180) = - (1 / 70)"
    by (simp add: field_simps)
  have quarter: "(175 * pi / 180 - pi / 2) / (175 * pi / 180) = 17 / 35"
    by (simp add: field_simps)
  have big: "pi \<le> 3 * pi / 2" "\<not> pi \<le> pi / 2" using pi_gt_zero by simp_all
  have rest: "bodyCompoundRootMesh restingRig = Some restingMesh"
    "armCompoundRootMesh restingRig = Some restingMesh"
    "clawCompoundRootMesh restingRig = Some restingMesh"
    "armJoint restingRig = Some \<lparr>motor = None\<rparr>" "clawJoint restingRig = Some \<lparr>motor = None\<rparr>"
    by (simp_all add: restingRig_def)
  have rest_arm: "getDeltaRotationOnAxis (armRotationDefault restingRig)
       (Quaternion_multiply (Quaternion_Inverse (rotationQuaternion restingMesh)) (rotationQuaternion restingMesh))
       armRotationVector = Some 0"
    by (simp add: restingRig_def restingMesh_def identity_inverse_left same_frame_angle[OF identity_unit])
  have rest_claw: "getDeltaRotationOnAxis (clawRotationDefault restingRig)
       (Quaternion_multiply (Quaternion_Inverse (rotationQuaternion restingMesh)) (rotationQuaternion restingMesh))
       clawRotationVector = Some 0"
    by (simp add: restingRig_def restingMesh_def identity_inverse_left same_frame_angle[OF identity_unit])
  have zero: "(0::real) = (if 0 \<ge> pi then 0 - 2 * pi else 0)" using np by simp
  note resting = inst[OF rest rest_arm zero rest_claw zero]
  have stop: "\<exists>aj' cj'. setServoPositions restingRig [Some 1024, Some 0, Some 0, Some 2048]
                  = Done (restingRig\<lparr>armJoint := Some aj', clawJoint := Some cj'\<rparr>)
        \<and> motor aj' = Some (SetMotor (Some 0) None)
        \<and> motor cj' = Some (SetMotor (Some 0) None)"
    using resting[of 1024 2048] unfolding half full by simp
  have low: "\<exists>aj' cj'. setServoPositions restingRig [Some 1000, Some 0, Some 0, Some 2000]
                  = Done (restingRig\<lparr>armJoint := Some aj', clawJoint := Some cj'\<rparr>)
        \<and> motor aj' = Some (SetMotor (Some 1.2) (Some 8000))
        \<and> motor cj' = Some (SetMotor (Some 1.2) (Some 2000))"
    using resting[of 1000 2000] unfolding half full by simp
  have high: "\<exists>aj' cj'. setServoPositions restingRig [Some 2048, Some 0, Some 0, Some 0]
                  = Done (restingRig\<lparr>armJoint := Some aj', clawJoint := Some cj'\<rparr>)
        \<and> motor aj' = Some (SetMotor (Some (- 6)) (Some 8000))
        \<and> motor cj' = Some (SetMotor (Some 6) (Some 2000))"
    using resting[of 2048 0] unfolding half full by simp
  let ?A = "turnedMesh armRotationVector (3 * pi / 2)"
  have ta: "bodyCompoundRootMesh turnedArmRig = Some restingMesh"
    "armCompoundRootMesh turnedArmRig = Some ?A"
    "clawCompoundRootMesh turnedArmRig = Some ?A"
    "armJoint turnedArmRig = Some \<lparr>motor = None\<rparr>" "clawJoint turnedArmRig = Some \<lparr>motor = None\<rparr>"
    by (simp_all add: turnedArmRig_def restingRig_def)
  have "getDeltaRotationOnAxis Quaternion_Identity
          (Quaternion_multiply Quaternion_Identity (Quaternion_RotationAxis armRotationVector (3 * pi / 2)))
          armRotationVector = Some (3 * pi / 2)"
    by (rule forward_turn[OF identity_unit arm_axis_unit]) simp_all
  then have ta_arm: "getDeltaRotationOnAxis (armRotationDefault turnedArmRig)
       (Quaternion_multiply (Quaternion_Inverse (rotationQuaternion restingMesh)) (rotationQuaternion ?A))
       armRotationVector = Some (3 * pi / 2)"
    by (simp add: turnedArmRig_def restingRig_def restingMesh_def turnedMesh_def
        identity_inverse_left identity_left)
  have ta_claw: "getDeltaRotationOnAxis (clawRotationDefault turnedArmRig)
       (Quaternion_multiply (Quaternion_Inverse (rotationQuaternion ?A)) (rotationQuaternion ?A))
       clawRotationVector = Some 0"
    by (simp add: turnedArmRig_def restingRig_def turnedMesh_def
        turn_against_itself[OF arm_axis_unit] same_frame_angle[OF identity_unit])
  have wrapped: "3 * pi / 2 - 2 * pi = (if 3 * pi / 2 \<ge> pi then 3 * pi / 2 - 2 * pi else 3 * pi / 2)"
    using big by simp
  have turned: "\<exists>aj' cj'. setServoPositions turnedArmRig [Some 0, Some 0, Some 0, Some 2048]
                  = Done (turnedArmRig\<lparr>armJoint := Some aj', clawJoint := Some cj'\<rparr>)
        \<and> motor aj' = Some (SetMotor (Some (- 1.2)) (Some 8000))
        \<and> motor cj' = Some (SetMotor (Some 0) None)"
    using inst[OF ta ta_arm wrapped ta_claw zero, of 0 2048] unfolding short full by simp
  let ?C = "turnedMesh clawRotationVector (pi / 2)"
  have tc: "bodyCompoundRootMesh turnedClawRig = Some restingMesh"
    "armCompoundRootMesh turnedClawRig = Some restingMesh"
    "clawCompoundRootMesh turnedClawRig = Some ?C"
    "armJoint turnedClawRig = Some \<lparr>motor = None\<rparr>" "clawJoint turnedClawRig = Some \<lparr>motor = None\<rparr>"
    by (simp_all add: turnedClawRig_def restingRig_def)
  have tc_arm: "getDeltaRotationOnAxis (armRotationDefault turnedClawRig)
       (Quaternion_multiply (Quaternion_Inverse (rotationQuaternion restingMesh)) (rotationQuaternion restingMesh))
       armRotationVector = Some 0"
    by (simp add: turnedClawRig_def restingRig_def restingMesh_def identity_inverse_left
        same_frame_angle[OF identity_unit])
  have "getDeltaRotationOnAxis Quaternion_Identity
          (Quaternion_multiply Quaternion_Identity (Quaternion_RotationAxis clawRotationVector (pi / 2)))
          clawRotationVector = Some (pi / 2)"
    by (rule forward_turn[OF identity_unit claw_axis_unit]) simp_all
  then have tc_claw: "getDeltaRotationOnAxis (clawRotationDefault turnedClawRig)
       (Quaternion_multiply (Quaternion_Inverse (rotationQuaternion restingMesh)) (rotationQuaternion ?C))
       clawRotationVector = Some (pi / 2)"
    by (simp add: turnedClawRig_def restingRig_def restingMesh_def turnedMesh_def
        identity_inverse_left identity_left)
  have unwrapped: "pi / 2 = (if pi / 2 \<ge> pi then pi / 2 - 2 * pi else pi / 2)"
    using big by simp
  have opened: "\<exists>aj' cj'. setServoPositions turnedClawRig [Some 1024, Some 0, Some 0, Some 2048]
                  = Done (turnedClawRig\<lparr>armJoint := Some aj', clawJoint := Some cj'\<rparr>)
        \<and> motor aj' = Some (SetMotor (Some 0) None)
        \<and> motor cj' = Some (SetMotor (Some (- 6)) (Some 2000))"
    using inst[OF tc tc_arm zero tc_claw unwrapped, of 1024 2048] unfolding half quarter by simp
  from stop low high turned opened show ?thesis by blast
qed

section \<open>Telemetry of the motor positions\<close>

lemma stopSpin_built: "hasImpostor m \<Longrightarrow> \<exists>m'. stopSpin m = Inr m' \<and> physicsImpostor m' \<noteq> None"
  by (auto simp: hasImpostor_def stopSpin_def split: option.splits)

lemma hasImpostor_Some: "hasImpostor m \<Longrightarrow> \<exists>me. m = Some me"
  by (cases m) (auto simp: hasImpostor_def)

lemma stopSpin_orientation:
  "stopSpin m = Inr m' \<Longrightarrow> \<exists>me. m = Some me \<and> rotationQuaternion m' = rotationQuaternion me"
  by (auto simp: stopSpin_def split: option.splits)

text \<open>Driving the wheels changes the two wheel joints and the spin of the wheel bodies; it
  leaves every orientation and every remembered rotation as it was.\<close>

lemma setDriveMotors_keeps:
  assumes "setDriveMotors s l r = Done s1"
  shows "bodyCompoundRootMesh s1 = bodyCompoundRootMesh s
       \<and> armCompoundRootMesh s1 = armCompoundRootMesh s
       \<and> clawCompoundRootMesh s1 = clawCompoundRootMesh s
       \<and> map_option rotationQuaternion (colliderLeftWheelMesh s1)
           = map_option rotationQuaternion (colliderLeftWheelMesh s)
       \<and> map_option rotationQuaternion (colliderRightWheelMesh s1)
           = map_option rotationQuaternion (colliderRightWheelMesh s)
       \<and> armJoint s1 = armJoint s \<and> clawJoint s1 = clawJoint s
       \<and> leftWheelRotationPrev s1 = leftWheelRotationPrev s
       \<and> rightWheelRotationPrev s1 = rightWheelRotationPrev s
       \<and> armRotationDefault s1 = armRotationDefault s
       \<and> clawRotationDefault s1 = clawRotationDefault s"
proof -
  define s0 where "s0 = (case (leftWheelJoint s, rightWheelJoint s) of
                  (Some lj, Some rj) \<Rightarrow>
                    (let leftSpeedClamped =
                           js_max (Some (- MAX_MOTOR_VELOCITY)) (js_min l (Some MAX_MOTOR_VELOCITY));
                         rightSpeedClamped =
                           js_max (Some (- MAX_MOTOR_VELOCITY)) (js_min r (Some MAX_MOTOR_VELOCITY))
                     in s\<lparr>leftWheelJoint := Some (setMotor lj (js_div_const leftSpeedClamped 315) None),
                          rightWheelJoint := Some (setMotor rj (js_div_const (js_neg rightSpeedClamped) 315) None)\<rparr>)
                | _ \<Rightarrow> s)"
  have k0: "bodyCompoundRootMesh s0 = bodyCompoundRootMesh s"
       "armCompoundRootMesh s0 = armCompoundRootMesh s"
       "clawCompoundRootMesh s0 = clawCompoundRootMesh s"
       "colliderLeftWheelMesh s0 = colliderLeftWheelMesh s"
       "colliderRightWheelMesh s0 = colliderRightWheelMesh s"
       "armJoint s0 = armJoint s" "clawJoint s0 = clawJoint s"
       "leftWheelRotationPrev s0 = leftWheelRotationPrev s"
       "rightWheelRotationPrev s0 = rightWheelRotationPrev s"
       "armRotationDefault s0 = armRotationDefault s"
       "clawRotationDefault s0 = clawRotationDefault s"
    by (simp_all add: s0_def Let_def split: option.splits)
  have run: "(if js_eq l 0 then
           (case stopSpin (colliderLeftWheelMesh s0) of
              Inl e \<Rightarrow> Thrown e s0
            | Inr m \<Rightarrow>
                (let s2 = s0\<lparr>colliderLeftWheelMesh := Some m\<rparr>
                 in if js_eq r 0 then
                      (case stopSpin (colliderRightWheelMesh s2) of
                         Inl e \<Rightarrow> Thrown e s2
                       | Inr m' \<Rightarrow> Done (s2\<lparr>colliderRightWheelMesh := Some m'\<rparr>))
                    else Done s2))
         else if js_eq r 0 then
           (case stopSpin (colliderRightWheelMesh s0) of
              Inl e \<Rightarrow> Thrown e s0
            | Inr m' \<Rightarrow> Done (s0\<lparr>colliderRightWheelMesh := Some m'\<rparr>))
         else Done s0) = Done s1"
    using assms unfolding setDriveMotors_def s0_def[symmetric] by (simp add: Let_def)
  have "bodyCompoundRootMesh s1 = bodyCompoundRootMesh s0
       \<and> armCompoundRootMesh s1 = armCompoundRootMesh s0
       \<and> clawCompoundRootMesh s1 = clawCompoundRootMesh s0
       \<and> map_option rotationQuaternion (colliderLeftWheelMesh s1)
           = map_option rotationQuaternion (colliderLeftWheelMesh s0)
       \<and> map_option rotationQuaternion (colliderRightWheelMesh s1)
           = map_option rotationQuaternion (colliderRightWheelMesh s0)
       \<and> armJoint s1 = armJoint s0 \<and> clawJoint s1 = clawJoint s0
       \<and> leftWheelRotationPrev s1 = leftWheelRotationPrev s0
       \<and> rightWheelRotationPrev s1 = rightWheelRotationPrev s0
       \<and> armRotationDefault s1 = armRotationDefault s0
       \<and> clawRotationDefault s1 = clawRotationDefault s0"
    using run
    by (auto simp: Let_def split: if_splits sum.splits dest!: stopSpin_orientation)
  then show ?thesis by (simp add: k0)
qed


lemma setServoPositions_keeps:
  assumes "setServoPositions s goals = Done s2"
  shows "\<exists>aj cj. s2 = s\<lparr>armJoint := aj, clawJoint := cj\<rparr>"
  using assms
  by (auto simp: setServoPositions_def Let_def split: option.splits)

lemma setDriveMotors_built:
  assumes "rigBuilt s"
  shows "\<exists>s'. setDriveMotors s l r = Done s' \<and> rigBuilt s'"
proof -
  from assms obtain lj rj where j: "leftWheelJoint s = Some lj" "rightWheelJoint s = Some rj"
    by (auto simp: rigBuilt_def)
  from assms have il: "hasImpostor (colliderLeftWheelMesh s)" and ir: "hasImpostor (colliderRightWheelMesh s)"
    by (auto simp: rigBuilt_def)
  from stopSpin_built[OF il] obtain ml where ml: "stopSpin (colliderLeftWheelMesh s) = Inr ml" "physicsImpostor ml \<noteq> None" by blast
  from stopSpin_built[OF ir] obtain mr where mr: "stopSpin (colliderRightWheelMesh s) = Inr mr" "physicsImpostor mr \<noteq> None" by blast
  show ?thesis
    using assms j ml mr
    by (auto simp: setDriveMotors_def Let_def rigBuilt_def hasImpostor_def)
qed

lemma setServoPositions_built:
  assumes "rigBuilt s"
  shows "\<exists>s'. setServoPositions s goals = Done s' \<and> rigBuilt s'"
proof -
  from assms obtain body arm claw aj cj where
    "bodyCompoundRootMesh s = Some body" "armCompoundRootMesh s = Some arm"
    "clawCompoundRootMesh s = Some claw" "armJoint s = Some aj" "clawJoint s = Some cj"
    by (auto simp: rigBuilt_def dest!: hasImpostor_Some)
  with assms show ?thesis
    by (auto simp: setServoPositions_def Let_def rigBuilt_def)
qed

lemma restingRig_built: "rigBuilt restingRig"
  by (simp add: rigBuilt_def restingRig_def restingMesh_def hasImpostor_def)

lemma turnedWheelRig_built: "rigBuilt turnedWheelRig"
  by (simp add: rigBuilt_def turnedWheelRig_def turnedMesh_def restingRig_def restingMesh_def
      hasImpostor_def)

text \<open>The wheel rotation the callback reports is the extracted angle, reduced by \<open>2 pi\<close>
  when it exceeds \<open>pi\<close>.\<close>

lemma wheelRotation_value:
  "\<exists>raw. getDeltaRotationOnAxis p c wheelRotationVector = Some raw \<and> 0 \<le> raw \<and> raw \<le> 2 * pi
       \<and> wheelRotation p c = Some (if raw > pi then raw - 2 * pi else raw)"
proof -
  from extractor_total[of p c wheelRotationVector] obtain raw where
    raw: "getDeltaRotationOnAxis p c wheelRotationVector = Some raw" "0 \<le> raw" "raw \<le> 2 * pi"
    by blast
  then have "wheelRotation p c = Some (if raw > pi then raw - 2 * pi else raw)"
    by (simp add: wheelRotation_def Let_def js_gt_def js_sub_def)
  with raw show ?thesis by blast
qed

text \<open>What the callback leaves behind, in terms of the state it started from.\<close>

lemma afterRender_result:
  assumes "afterRender (s, rs) = Done (s', rs')"
  shows "\<exists>body left right.
           bodyCompoundRootMesh s = Some body \<and> colliderLeftWheelMesh s = Some left
         \<and> colliderRightWheelMesh s = Some right
         \<and> rs' = rs\<lparr>motorPositions :=
               [js_add (js_index (motorPositions rs) 0)
                  (js_mul (wheelRotation (leftWheelRotationPrev s)
                             (Quaternion_multiply (Quaternion_Inverse (rotationQuaternion body))
                                                  (rotationQuaternion left)))
                          (Some WHEEL_TICKS_PER_RADIAN)),
                Some 0, Some 0,
                js_add (js_index (motorPositions rs) 3)
                  (js_mul (wheelRotation (rightWheelRotationPrev s)
                             (Quaternion_multiply (Quaternion_Inverse (rotationQuaternion body))
                                                  (rotationQuaternion right)))
                          (Some WHEEL_TICKS_PER_RADIAN))]\<rparr>
         \<and> leftWheelRotationPrev s' =
             Quaternion_multiply (Quaternion_Inverse (rotationQuaternion body)) (rotationQuaternion left)
         \<and> rightWheelRotationPrev s' =
             Quaternion_multiply (Quaternion_Inverse (rotationQuaternion body)) (rotationQuaternion right)"
proof -
  from assms obtain s1 where
    s1: "setDriveMotors s (js_index (motorSpeeds rs) 0) (js_index (motorSpeeds rs) 3) = Done s1"
    by (auto simp: afterRender_def Let_def split: outcome.splits)
  from assms s1 obtain s2 where s2: "setServoPositions s1 (servoPositions rs) = Done s2"
    by (auto simp: afterRender_def Let_def split: outcome.splits)
  from assms s1 s2 obtain body left2 right2 where
    m2: "bodyCompoundRootMesh s2 = Some body" "colliderLeftWheelMesh s2 = Some left2"
        "colliderRightWheelMesh s2 = Some right2"
    by (auto simp: afterRender_def Let_def split: option.splits)
  note k1 = setDriveMotors_keeps[OF s1]
  from setServoPositions_keeps[OF s2] obtain aj cj where
    e2: "s2 = s1\<lparr>armJoint := aj, clawJoint := cj\<rparr>" by blast
  have b: "bodyCompoundRootMesh s = Some body" using m2(1) k1 e2 by simp
  have "map_option rotationQuaternion (colliderLeftWheelMesh s) = Some (rotationQuaternion left2)"
    using m2(2) k1 e2 by simp
  then obtain left where
    l: "colliderLeftWheelMesh s = Some left" "rotationQuaternion left = rotationQuaternion left2"
    by auto
  have "map_option rotationQuaternion (colliderRightWheelMesh s) = Some (rotationQuaternion right2)"
    using m2(3) k1 e2 by simp
  then obtain right where
    r: "colliderRightWheelMesh s = Some right" "rotationQuaternion right = rotationQuaternion right2"
    by auto
  have p: "leftWheelRotationPrev s2 = leftWheelRotationPrev s"
          "rightWheelRotationPrev s2 = rightWheelRotationPrev s"
    using k1 e2 by simp_all
  from assms s1 s2 m2 have
    "rs' = rs\<lparr>motorPositions :=
               [js_add (js_index (motorPositions rs) 0)
                  (js_mul (wheelRotation (leftWheelRotationPrev s2)
                             (Quaternion_multiply (Quaternion_Inverse (rotationQuaternion body))
                                                  (rotationQuaternion left2)))
                          (Some WHEEL_TICKS_PER_RADIAN)),
                Some 0, Some 0,
                js_add (js_index (motorPositions rs) 3)
                  (js_mul (wheelRotation (rightWheelRotationPrev s2)
                             (Quaternion_multiply (Quaternion_Inverse (rotationQuaternion body))
                                                  (rotationQuaternion right2)))
                          (Some WHEEL_TICKS_PER_RADIAN))]\<rparr>"
    and "leftWheelRotationPrev s' =
             Quaternion_multiply (Quaternion_Inverse (rotationQuaternion body)) (rotationQuaternion left2)"
    and "rightWheelRotationPrev s' =
             Quaternion_multiply (Quaternion_Inverse (rotationQuaternion body)) (rotationQuaternion right2)"
    by (auto simp: afterRender_def Let_def)
  with b l r p show ?thesis by simp
qed

lemma afterRender_returns:
  assumes b: "rigBuilt s"
  shows "\<exists>s' rs'. afterRender (s, rs) = Done (s', rs')"
proof -
  from setDriveMotors_built[OF b] obtain s1 where
    s1: "setDriveMotors s (js_index (motorSpeeds rs) 0) (js_index (motorSpeeds rs) 3) = Done s1" "rigBuilt s1"
    by blast
  from setServoPositions_built[OF s1(2)] obtain s2 where
    s2: "setServoPositions s1 (servoPositions rs) = Done s2" "rigBuilt s2" by blast
  from s2(2) obtain body left right where
    "bodyCompoundRootMesh s2 = Some body" "colliderLeftWheelMesh s2 = Some left"
    "colliderRightWheelMesh s2 = Some right"
    by (auto simp: rigBuilt_def dest!: hasImpostor_Some)
  with s1 s2 show ?thesis
    by (simp add: afterRender_def Let_def)
qed

text \<open>
  Claim C9. Every motor-position write of the after-render callback stores exactly the array
  \<open>[m0, 0, 0, m3]\<close> and leaves the other fields of the robot state as they were. Channels 1
  and 2 are 0 whatever they held before. Channel 0 is the previous channel 0 plus the rotation
  of the left wheel since the previous frame times \<open>2048 / (2 pi)\<close> ticks per radian, where the
  rotation is the angle extracted between the remembered and the current orientation of the
  wheel relative to the body, reduced by \<open>2 pi\<close> when it exceeds \<open>pi\<close>; channel 3 is the same
  for the right wheel. The current relative orientations are remembered for the next frame,
  so that the ticks accumulate over the frames. A previous value that is not a number stays not a
  number. On a built rig the callback does return and write.
\<close>

theorem afterRender_motorPositions:
  "(afterRender (s, rs) = Done (s', rs') \<longrightarrow>
      (\<exists>body left right rawLeft rawRight.
          bodyCompoundRootMesh s = Some body \<and> colliderLeftWheelMesh s = Some left
        \<and> colliderRightWheelMesh s = Some right
        \<and> getDeltaRotationOnAxis (leftWheelRotationPrev s)
            (Quaternion_multiply (Quaternion_Inverse (rotationQuaternion body)) (rotationQuaternion left))
            wheelRotationVector = Some rawLeft
        \<and> getDeltaRotationOnAxis (rightWheelRotationPrev s)
            (Quaternion_multiply (Quaternion_Inverse (rotationQuaternion body)) (rotationQuaternion right))
            wheelRotationVector = Some rawRight
        \<and> motorPositions rs' =
            [case js_index (motorPositions rs) 0 of
               None \<Rightarrow> None
             | Some ticks \<Rightarrow>
                 Some (ticks + (if rawLeft > pi then rawLeft - 2 * pi else rawLeft) * (2048 / (2 * pi))),
             Some 0, Some 0,
             case js_index (motorPositions rs) 3 of
               None \<Rightarrow> None
             | Some ticks \<Rightarrow>
                 Some (ticks + (if rawRight > pi then rawRight - 2 * pi else rawRight) * (2048 / (2 * pi)))]
        \<and> rs' = rs\<lparr>motorPositions := motorPositions rs'\<rparr>
        \<and> leftWheelRotationPrev s' =
            Quaternion_multiply (Quaternion_Inverse (rotationQuaternion body)) (rotationQuaternion left)
        \<and> rightWheelRotationPrev s' =
            Quaternion_multiply (Quaternion_Inverse (rotationQuaternion body)) (rotationQuaternion right)))
   \<and> (rigBuilt s \<longrightarrow> (\<exists>s'' rs''. afterRender (s, rs) = Done (s'', rs'')))"
proof (rule conjI; rule impI)
  assume "afterRender (s, rs) = Done (s', rs')"
  from afterRender_result[OF this] obtain body left right where
    m: "bodyCompoundRootMesh s = Some body" "colliderLeftWheelMesh s = Some left"
       "colliderRightWheelMesh s = Some right"
    and rs': "rs' = rs\<lparr>motorPositions :=
               [js_add (js_index (motorPositions rs) 0)
                  (js_mul (wheelRotation (leftWheelRotationPrev s)
                             (Quaternion_multiply (Quaternion_Inverse (rotationQuaternion body))
                                                  (rotationQuaternion left)))
                          (Some WHEEL_TICKS_PER_RADIAN)),
                Some 0, Some 0,
                js_add (js_index (motorPositions rs) 3)
                  (js_mul (wheelRotation (rightWheelRotationPrev s)
                             (Quaternion_multiply (Quaternion_Inverse (rotationQuaternion body))
                                                  (rotationQuaternion right)))
                          (Some WHEEL_TICKS_PER_RADIAN))]\<rparr>"
    and prev: "leftWheelRotationPrev s' =
             Quaternion_multiply (Quaternion_Inverse (rotationQuaternion body)) (rotationQuaternion left)"
         "rightWheelRotationPrev s' =
             Quaternion_multiply (Quaternion_Inverse (rotationQuaternion body)) (rotationQuaternion right)"
    by blast
  let ?cl = "Quaternion_multiply (Quaternion_Inverse (rotationQuaternion body)) (rotationQuaternion left)"
  let ?cr = "Quaternion_multiply (Quaternion_Inverse (rotationQuaternion body)) (rotationQuaternion right)"
  from wheelRotation_value[of "leftWheelRotationPrev s" ?cl] obtain rawLeft where
    l: "getDeltaRotationOnAxis (leftWheelRotationPrev s) ?cl wheelRotationVector = Some rawLeft"
       "wheelRotation (leftWheelRotationPrev s) ?cl = Some (if rawLeft > pi then rawLeft - 2 * pi else rawLeft)"
    by blast
  from wheelRotation_value[of "rightWheelRotationPrev s" ?cr] obtain rawRight where
    r: "getDeltaRotationOnAxis (rightWheelRotationPrev s) ?cr wheelRotationVector = Some rawRight"
       "wheelRotation (rightWheelRotationPrev s) ?cr = Some (if rawRight > pi then rawRight - 2 * pi else rawRight)"
    by blast
  have mp: "motorPositions rs' =
            [case js_index (motorPositions rs) 0 of
               None \<Rightarrow> None
             | Some ticks \<Rightarrow>
                 Some (ticks + (if rawLeft > pi then rawLeft - 2 * pi else rawLeft) * (2048 / (2 * pi))),
             Some 0, Some 0,
             case js_index (motorPositions rs) 3 of
               None \<Rightarrow> None
             | Some ticks \<Rightarrow>
                 Some (ticks + (if rawRight > pi then rawRight - 2 * pi else rawRight) * (2048 / (2 * pi)))]"
    unfolding rs' l(2) r(2)
    by (simp add: js_add_def js_mul_def WHEEL_TICKS_PER_RADIAN_def split: option.splits)
  have keep: "rs' = rs\<lparr>motorPositions := motorPositions rs'\<rparr>"
    by (subst (1 2) rs') simp
  from m l(1) r(1) mp keep prev
  show "\<exists>body left right rawLeft rawRight.
          bodyCompoundRootMesh s = Some body \<and> colliderLeftWheelMesh s = Some left
        \<and> colliderRightWheelMesh s = Some right
        \<and> getDeltaRotationOnAxis (leftWheelRotationPrev s)
            (Quaternion_multiply (Quaternion_Inverse (rotationQuaternion body)) (rotationQuaternion left))
            wheelRotationVector = Some rawLeft
        \<and> getDeltaRotationOnAxis (rightWheelRotationPrev s)
            (Quaternion_multiply (Quaternion_Inverse (rotationQuaternion body)) (rotationQuaternion right))
            wheelRotationVector = Some rawRight
        \<and> motorPositions rs' =
            [case js_index (motorPositions rs) 0 of
               None \<Rightarrow> None
             | Some ticks \<Rightarrow>
                 Some (ticks + (if rawLeft > pi then rawLeft - 2 * pi else rawLeft) * (2048 / (2 * pi))),
             Some 0, Some 0,
             case js_index (motorPositions rs) 3 of
               None \<Rightarrow> None
             | Some ticks \<Rightarrow>
                 Some (ticks + (if rawRight > pi then rawRight - 2 * pi else rawRight) * (2048 / (2 * pi)))]
        \<and> rs' = rs\<lparr>motorPositions := motorPositions rs'\<rparr>
        \<and> leftWheelRotationPrev s' =
            Quaternion_multiply (Quaternion_Inverse (rotationQuaternion body)) (rotationQuaternion left)
        \<and> rightWheelRotationPrev s' =
            Quaternion_multiply (Quaternion_Inverse (rotationQuaternion body)) (rotationQuaternion right)"
    by blast
next
  assume "rigBuilt s"
  then show "\<exists>s'' rs''. afterRender (s, rs) = Done (s'', rs'')" by (rule afterRender_returns)
qed


theorem afterRender_motorPositions_witness:
  "rigBuilt turnedWheelRig
   \<and> motorPositions sampleRobotState = [Some 10, Some 20, Some 30, Some 40]
   \<and> (\<exists>s' rs'. afterRender (turnedWheelRig, sampleRobotState) = Done (s', rs')
         \<and> motorPositions rs' = [Some (- 502), Some 0, Some 0, Some 40]
         \<and> leftWheelRotationPrev s' =
             Quaternion_multiply (Quaternion_Inverse Quaternion_Identity)
               (Quaternion_RotationAxis wheelRotationVector (3 * pi / 2)))"
proof -
  let ?R = "Quaternion_RotationAxis wheelRotationVector (3 * pi / 2)"
  from afterRender_motorPositions[of turnedWheelRig sampleRobotState] turnedWheelRig_built
  obtain s' rs' where d: "afterRender (turnedWheelRig, sampleRobotState) = Done (s', rs')" by blast
  with afterRender_motorPositions[of turnedWheelRig sampleRobotState s' rs']
  obtain body left right rawLeft rawRight where
    m: "bodyCompoundRootMesh turnedWheelRig = Some body" "colliderLeftWheelMesh turnedWheelRig = Some left"
       "colliderRightWheelMesh turnedWheelRig = Some right"
    and l: "getDeltaRotationOnAxis (leftWheelRotationPrev turnedWheelRig)
            (Quaternion_multiply (Quaternion_Inverse (rotationQuaternion body)) (rotationQuaternion left))
            wheelRotationVector = Some rawLeft"
    and r: "getDeltaRotationOnAxis (rightWheelRotationPrev turnedWheelRig)
            (Quaternion_multiply (Quaternion_Inverse (rotationQuaternion body)) (rotationQuaternion right))
            wheelRotationVector = Some rawRight"
    and mp: "motorPositions rs' =
            [case js_index (motorPositions sampleRobotState) 0 of
               None \<Rightarrow> None
             | Some ticks \<Rightarrow>
                 Some (ticks + (if rawLeft > pi then rawLeft - 2 * pi else rawLeft) * (2048 / (2 * pi))),
             Some 0, Some 0,
             case js_index (motorPositions sampleRobotState) 3 of
               None \<Rightarrow> None
             | Some ticks \<Rightarrow>
                 Some (ticks + (if rawRight > pi then rawRight - 2 * pi else rawRight) * (2048 / (2 * pi)))]"
    and prev: "leftWheelRotationPrev s' =
            Quaternion_multiply (Quaternion_Inverse (rotationQuaternion body)) (rotationQuaternion left)"
    by blast
  have body: "rotationQuaternion body = Quaternion_Identity"
    and left: "rotationQuaternion left = ?R"
    and right: "rotationQuaternion right = Quaternion_Identity"
    using m by (auto simp: turnedWheelRig_def turnedMesh_def restingRig_def restingMesh_def)
  have p: "leftWheelRotationPrev turnedWheelRig = Quaternion_Identity"
          "rightWheelRotationPrev turnedWheelRig = Quaternion_Identity"
    by (simp_all add: turnedWheelRig_def restingRig_def)
  have "getDeltaRotationOnAxis Quaternion_Identity (Quaternion_multiply Quaternion_Identity ?R)
          wheelRotationVector = Some (3 * pi / 2)"
    by (rule forward_turn[OF identity_unit wheel_axis_unit]) simp_all
  with l have rl: "rawLeft = 3 * pi / 2"
    by (simp add: body left p identity_inverse_left identity_left)
  from r have rr: "rawRight = 0"
    by (simp add: body right p identity_inverse_left same_frame_angle[OF identity_unit])
  have gt: "pi < 3 * pi / 2" "\<not> pi < 0" using pi_gt_zero by simp_all
  have ticks: "(3 * pi / 2 - 2 * pi) * (2048 / (2 * pi)) = - 512"
    by (simp add: field_simps)
  have "motorPositions rs' = [Some (- 502), Some 0, Some 0, Some 40]"
    unfolding mp rl rr using gt ticks by (simp add: sampleRobotState_def js_index_def)
  moreover have "motorPositions sampleRobotState = [Some 10, Some 20, Some 30, Some 40]"
    by (simp add: sampleRobotState_def)
  ultimately show ?thesis using d prev turnedWheelRig_built by (simp add: body left)
qed

section \<open>Repositioning halts the rig\<close>

lemma getRoot_putRoot: "getRoot (putRoot s r m) r' = (if r' = r then Some m else getRoot s r')"
  by (cases r; cases r') simp_all

lemma getRoot_logCalls: "getRoot (logCalls s cs) r = getRoot s r"
  by (cases r) (simp_all add: logCalls_def)

lemma engineCalls_putRoot: "engineCalls (putRoot s r m) = engineCalls s"
  by (cases r) simp_all

lemma engineCalls_logCalls: "engineCalls (logCalls s cs) = engineCalls s @ cs"
  by (simp add: logCalls_def)

lemma logCalls_logCalls: "logCalls (logCalls s a) b = logCalls s (a @ b)"
  by (simp add: logCalls_def)

lemma stopAndAttach_built:
  "\<forall>r\<in>set rs. hasImpostor (getRoot s r) \<Longrightarrow>
     \<exists>s'. stopAndAttach rs s = Done s'
        \<and> engineCalls s' = engineCalls s @ concat (map stopCalls rs)
        \<and> (\<forall>r\<in>set rs. stopped (getRoot s' r))
        \<and> (\<forall>r. stopped (getRoot s r) \<longrightarrow> stopped (getRoot s' r))
        \<and> (\<forall>r. hasImpostor (getRoot s r) \<longrightarrow> hasImpostor (getRoot s' r))"
proof (induction rs arbitrary: s)
  case Nil
  then show ?case by simp
next
  case (Cons r rs)
  from Cons.prems obtain m i where m: "getRoot s r = Some m" "physicsImpostor m = Some i"
    by (auto simp: hasImpostor_def split: option.splits)
  let ?m = "m\<lparr>physicsImpostor := Some (i\<lparr>linearVelocity := Vector3_Zero, angularVelocity := Vector3_Zero\<rparr>)\<rparr>"
  let ?s1 = "logCalls (putRoot s r ?m) [SetLinearVelocity r Vector3_Zero, SetAngularVelocity r Vector3_Zero, SetParentResetNode r]"
  have root1: "\<And>r'. getRoot ?s1 r' = (if r' = r then Some ?m else getRoot s r')"
    by (simp add: getRoot_logCalls getRoot_putRoot)
  have imp1: "\<And>r'. hasImpostor (getRoot s r') \<Longrightarrow> hasImpostor (getRoot ?s1 r')"
    by (simp add: root1 hasImpostor_def)
  have st1: "\<And>r'. stopped (getRoot s r') \<Longrightarrow> stopped (getRoot ?s1 r')"
    by (simp add: root1 stopped_def)
  have str: "stopped (getRoot ?s1 r)"
    by (simp add: root1 stopped_def)
  from Cons.prems imp1 have "\<forall>r'\<in>set rs. hasImpostor (getRoot ?s1 r')" by simp
  from Cons.IH[OF this] obtain s' where s':
    "stopAndAttach rs ?s1 = Done s'"
    "engineCalls s' = engineCalls ?s1 @ concat (map stopCalls rs)"
    "\<forall>r\<in>set rs. stopped (getRoot s' r)"
    "\<forall>r. stopped (getRoot ?s1 r) \<longrightarrow> stopped (getRoot s' r)"
    "\<forall>r. hasImpostor (getRoot ?s1 r) \<longrightarrow> hasImpostor (getRoot s' r)"
    by blast
  have run: "stopAndAttach (r # rs) s = Done s'"
    using m s'(1) by simp
  have calls: "engineCalls s' = engineCalls s @ concat (map stopCalls (r # rs))"
    using s'(2) by (simp add: engineCalls_logCalls engineCalls_putRoot stopCalls_def)
  have a: "\<forall>r'\<in>set (r # rs). stopped (getRoot s' r')"
    using s'(3,4) str by auto
  have b: "\<forall>r'. stopped (getRoot s r') \<longrightarrow> stopped (getRoot s' r')"
    using s'(4) st1 by blast
  have c: "\<forall>r'. hasImpostor (getRoot s r') \<longrightarrow> hasImpostor (getRoot s' r')"
    using s'(5) imp1 by blast
  from run calls a b c show ?case by blast
qed

lemma detachAll_built:
  "\<forall>r\<in>set rs. getRoot s r \<noteq> None \<Longrightarrow> detachAll rs s = Done (logCalls s (map SetParentNull rs))"
proof (induction rs arbitrary: s)
  case Nil
  then show ?case by (simp add: logCalls_def)
next
  case (Cons r rs)
  then obtain m where m: "getRoot s r = Some m" by auto
  from Cons.prems have "\<forall>r'\<in>set rs. getRoot (logCalls s [SetParentNull r]) r' \<noteq> None"
    by (simp add: getRoot_logCalls)
  from Cons.IH[OF this] m show ?case by (simp add: logCalls_logCalls)
qed

lemma hasImpostor_not_None: "hasImpostor m \<Longrightarrow> m \<noteq> None"
  by (cases m) (simp_all add: hasImpostor_def)

lemma moveRig_built:
  assumes ready: "\<forall>r\<in>set rootMeshes. hasImpostor (getRoot s r)"
      and body: "bodyCompoundRootMesh s = Some body"
  shows "\<exists>s'. moveRig s tp tq = Done s'
       \<and> (\<forall>r\<in>set rootMeshes. stopped (getRoot s' r))
       \<and> engineCalls s' = engineCalls s
            @ [NewTransformNode, NodeSetAbsolutePosition (absolutePosition body),
               NodeSetRotationQuaternion (absoluteRotationQuaternion body)]
            @ concat (map stopCalls rootMeshes)
            @ [NodeSetAbsolutePosition tp, NodeSetRotationQuaternion tq]
            @ map SetParentNull rootMeshes
            @ [DisposeNode]"
proof -
  let ?s0 = "logCalls s [NewTransformNode]"
  let ?s1 = "logCalls ?s0 [NodeSetAbsolutePosition (absolutePosition body),
                           NodeSetRotationQuaternion (absoluteRotationQuaternion body)]"
  have b0: "bodyCompoundRootMesh ?s0 = Some body" using body by (simp add: logCalls_def)
  from ready have "\<forall>r\<in>set rootMeshes. hasImpostor (getRoot ?s1 r)"
    by (simp add: getRoot_logCalls)
  from stopAndAttach_built[OF this] obtain s2 where s2:
    "stopAndAttach rootMeshes ?s1 = Done s2"
    "engineCalls s2 = engineCalls ?s1 @ concat (map stopCalls rootMeshes)"
    "\<forall>r\<in>set rootMeshes. stopped (getRoot s2 r)"
    "\<forall>r. hasImpostor (getRoot ?s1 r) \<longrightarrow> hasImpostor (getRoot s2 r)"
    by blast
  let ?s3 = "logCalls s2 [NodeSetAbsolutePosition tp, NodeSetRotationQuaternion tq]"
  have "\<forall>r\<in>set rootMeshes. getRoot ?s3 r \<noteq> None"
  proof
    fix r assume "r \<in> set rootMeshes"
    with ready have "hasImpostor (getRoot ?s1 r)" by (simp add: getRoot_logCalls)
    with s2(4) have "hasImpostor (getRoot s2 r)" by blast
    then show "getRoot ?s3 r \<noteq> None"
      unfolding getRoot_logCalls by (rule hasImpostor_not_None)
  qed
  note d = detachAll_built[OF this]
  let ?s' = "logCalls (logCalls ?s3 (map SetParentNull rootMeshes)) [DisposeNode]"
  have run: "moveRig s tp tq = Done ?s'"
    unfolding moveRig_def Let_def by (simp add: b0 s2(1) d)
  have st: "\<forall>r\<in>set rootMeshes. stopped (getRoot ?s' r)"
    using s2(3) by (simp add: getRoot_logCalls)
  have calls: "engineCalls ?s' = engineCalls s
            @ [NewTransformNode, NodeSetAbsolutePosition (absolutePosition body),
               NodeSetRotationQuaternion (absoluteRotationQuaternion body)]
            @ concat (map stopCalls rootMeshes)
            @ [NodeSetAbsolutePosition tp, NodeSetRotationQuaternion tq]
            @ map SetParentNull rootMeshes
            @ [DisposeNode]"
    by (simp add: engineCalls_logCalls s2(2))
  from run st calls show ?thesis by blast
qed

text \<open>
  Claim C10. On a rig whose five root bodies exist with their impostors, \<open>setRobotPosition\<close>
  and \<open>setOrigin\<close> return, every root body ends with zero linear and zero angular
  velocity, and the calls they make are, in this order: create the reset node at the body's
  pose; for each root body set both velocities to zero and parent it to the node; move the
  node to the target pose; un-parent the five bodies; dispose the node. So every body is
  stopped before it is repositioned.
\<close>

theorem reposition_stops_rig:
  assumes "\<forall>r\<in>set rootMeshes. hasImpostor (getRoot s r)"
      and "bodyCompoundRootMesh s = Some body"
  shows "(\<exists>s'. setRobotPosition s p = Done s'
          \<and> (\<forall>r\<in>set rootMeshes. stopped (getRoot s' r))
          \<and> (\<exists>target rot. engineCalls s' = engineCalls s
               @ [NewTransformNode, NodeSetAbsolutePosition (absolutePosition body),
                  NodeSetRotationQuaternion (absoluteRotationQuaternion body)]
               @ concat (map stopCalls rootMeshes)
               @ [NodeSetAbsolutePosition target, NodeSetRotationQuaternion rot]
               @ map SetParentNull rootMeshes
               @ [DisposeNode]))
       \<and> (\<exists>s'. setOrigin s origin = Done s'
          \<and> (\<forall>r\<in>set rootMeshes. stopped (getRoot s' r))
          \<and> (\<exists>target rot. engineCalls s' = engineCalls s
               @ [NewTransformNode, NodeSetAbsolutePosition (absolutePosition body),
                  NodeSetRotationQuaternion (absoluteRotationQuaternion body)]
               @ concat (map stopCalls rootMeshes)
               @ [NodeSetAbsolutePosition target, NodeSetRotationQuaternion rot]
               @ map SetParentNull rootMeshes
               @ [DisposeNode]))"
proof (rule conjI)
  show "\<exists>s'. setRobotPosition s p = Done s'
          \<and> (\<forall>r\<in>set rootMeshes. stopped (getRoot s' r))
          \<and> (\<exists>target rot. engineCalls s' = engineCalls s
               @ [NewTransformNode, NodeSetAbsolutePosition (absolutePosition body),
                  NodeSetRotationQuaternion (absoluteRotationQuaternion body)]
               @ concat (map stopCalls rootMeshes)
               @ [NodeSetAbsolutePosition target, NodeSetRotationQuaternion rot]
               @ map SetParentNull rootMeshes
               @ [DisposeNode])"
    unfolding setRobotPosition_def using moveRig_built[OF assms] by blast
next
  from assms(1) have all: "\<not> (\<exists>r\<in>set rootMeshes. getRoot s r = None)"
    by (auto dest: hasImpostor_not_None)
  show "\<exists>s'. setOrigin s origin = Done s'
          \<and> (\<forall>r\<in>set rootMeshes. stopped (getRoot s' r))
          \<and> (\<exists>target rot. engineCalls s' = engineCalls s
               @ [NewTransformNode, NodeSetAbsolutePosition (absolutePosition body),
                  NodeSetRotationQuaternion (absoluteRotationQuaternion body)]
               @ concat (map stopCalls rootMeshes)
               @ [NodeSetAbsolutePosition target, NodeSetRotationQuaternion rot]
               @ map SetParentNull rootMeshes
               @ [DisposeNode])"
    unfolding setOrigin_def if_not_P[OF all] using moveRig_built[OF assms] by blast
qed

lemma setOrigin_defers:
  assumes "r \<in> set rootMeshes" and "getRoot s r = None"
  shows "setOrigin s origin = Done (logCalls s [SetTimeout_setOrigin origin 100])"
  using assms unfolding setOrigin_def by auto

lemma restingRig_roots: "\<forall>r\<in>set rootMeshes. hasImpostor (getRoot restingRig r)"
  by (simp add: rootMeshes_def restingRig_def restingMesh_def hasImpostor_def)

theorem reposition_stops_rig_witness:
  "hasImpostor (getRoot restingRig Body) \<and> hasImpostor (getRoot restingRig LeftWheel)
   \<and> hasImpostor (getRoot restingRig RightWheel) \<and> hasImpostor (getRoot restingRig Arm)
   \<and> hasImpostor (getRoot restingRig Claw)
   \<and> bodyCompoundRootMesh restingRig = Some restingMesh
   \<and> \<not> stopped (getRoot restingRig Body)
   \<and> (\<exists>s'. setRobotPosition restingRig
               \<lparr>rp_x = \<lparr>d_type = Centimeters, d_value = 0\<rparr>, rp_y = \<lparr>d_type = Centimeters, d_value = 0\<rparr>,
                rp_z = \<lparr>d_type = Centimeters, d_value = 0\<rparr>, rp_theta = \<lparr>a_type = Degrees, a_value = 0\<rparr>\<rparr>
             = Done s'
          \<and> stopped (getRoot s' Body) \<and> stopped (getRoot s' LeftWheel)
          \<and> stopped (getRoot s' RightWheel) \<and> stopped (getRoot s' Arm) \<and> stopped (getRoot s' Claw))
   \<and> (\<exists>s'. setOrigin restingRig emptyFrame = Done s'
          \<and> stopped (getRoot s' Body) \<and> stopped (getRoot s' LeftWheel)
          \<and> stopped (getRoot s' RightWheel) \<and> stopped (getRoot s' Arm) \<and> stopped (getRoot s' Claw))"
proof -
  have b: "bodyCompoundRootMesh restingRig = Some restingMesh" by (simp add: restingRig_def)
  have n: "\<not> stopped (getRoot restingRig Body)"
    by (simp add: restingRig_def restingMesh_def stopped_def Vector3_Zero_def)
  have m: "Body \<in> set rootMeshes" "LeftWheel \<in> set rootMeshes" "RightWheel \<in> set rootMeshes"
    "Arm \<in> set rootMeshes" "Claw \<in> set rootMeshes"
    by (simp_all add: rootMeshes_def)
  from reposition_stops_rig[OF restingRig_roots b] m restingRig_roots b n
  show ?thesis by blast
qed

section \<open>Reconciliation thresholds\<close>






















section \<open>A missing collider mesh\<close>

lemma attachColliders_later:
  "laterStages (state_of (attachColliders m c infos st)) = laterStages st
   \<and> initializationPromise (state_of (attachColliders m c infos st)) = initializationPromise st"
  by (induction m c infos st rule: attachColliders.induct) (simp_all add: laterStages_def)

lemma attachColliders_Done:
  "attachColliders m c infos st = Done st' \<Longrightarrow> fst ` set infos \<subseteq> set m"
  by (induction m c infos st rule: attachColliders.induct) (auto split: if_splits)

lemma attachColliders_Thrown:
  "attachColliders m c infos st = Thrown e st' \<Longrightarrow>
     \<exists>n. n \<in> fst ` set infos \<and> n \<notin> set m \<and> e = Error (''failed to find collider mesh in model: '' @ n)"
  by (induction m c infos st rule: attachColliders.induct) (auto split: if_splits)

lemma andThen_Done: "andThen r f = Done s' \<longleftrightarrow> (\<exists>s1. r = Done s1 \<and> f s1 = Done s')"
  by (cases r) (simp_all add: andThen_def)

lemma andThen_Thrown:
  "andThen r f = Thrown e s' \<longleftrightarrow> r = Thrown e s' \<or> (\<exists>s1. r = Done s1 \<and> f s1 = Thrown e s')"
  by (cases r) (auto simp: andThen_def)

lemma deref_Done: "deref n ns s = Done s' \<longleftrightarrow> n \<in> set ns \<and> s' = s"
  by (auto simp: deref_def)

lemma deref_Thrown: "deref n ns s = Thrown e s' \<longleftrightarrow> n \<notin> set ns \<and> e = TypeError \<and> s' = s"
  by (auto simp: deref_def)

lemma manifest_split:
  "set manifestNames = fst ` set bodyColliderMeshInfos
      \<union> fst ` set (map (\<lambda>n. (n, Box)) armColliderMeshInfos)
      \<union> fst ` set (map (\<lambda>n. (n, Box)) clawColliderMeshInfos)"
  by (auto simp: manifestNames_def image_image)

lemma attachAllColliders_Done:
  assumes "attachAllColliders a st = Done st'"
  shows "set manifestNames \<subseteq> set (meshNames a)"
  using assms unfolding attachAllColliders_def manifest_split andThen_Done deref_Done
  by (blast dest: attachColliders_Done)


lemma deref_stage:
  assumes "laterStages s' = laterStages s" and "initializationPromise s' = initializationPromise s"
  shows "collidersStage a s (deref n ns s')"
  using assms by (simp add: collidersStage_def deref_def)

lemma attach_stage:
  assumes "fst ` set infos \<subseteq> set manifestNames"
      and "laterStages s' = laterStages s" and "initializationPromise s' = initializationPromise s"
  shows "collidersStage a s (attachColliders (meshNames a) c infos s')"
proof (cases "attachColliders (meshNames a) c infos s'")
  case (Done s2)
  with attachColliders_later[of "meshNames a" c infos s'] assms(2,3) show ?thesis
    by (simp add: collidersStage_def)
next
  case (Thrown e s2)
  from attachColliders_Thrown[OF Thrown] assms(1)
  have "\<exists>n \<in> set manifestNames. n \<notin> set (meshNames a)
          \<and> e = Error (''failed to find collider mesh in model: '' @ n)"
    by blast
  with Thrown attachColliders_later[of "meshNames a" c infos s'] assms(2,3) show ?thesis
    by (simp add: collidersStage_def)
qed

lemma andThen_stage:
  assumes "collidersStage a s r" and "\<And>s1. r = Done s1 \<Longrightarrow> collidersStage a s1 (f s1)"
  shows "collidersStage a s (andThen r f)"
proof (cases r)
  case (Done s1)
  with assms(1) have "laterStages s1 = laterStages s" "initializationPromise s1 = initializationPromise s"
    by (simp_all add: collidersStage_def)
  with assms(2)[OF Done] Done show ?thesis
    by (simp add: andThen_def collidersStage_def)
next
  case (Thrown e s1)
  with assms(1) show ?thesis by (simp add: andThen_def)
qed

lemma later_rootsCreated: "laterStages (s\<lparr>rootsCreated := v\<rparr>) = laterStages s"
  by (simp add: laterStages_def)

lemma deref_stage_same: "collidersStage a s (deref n ns s)"
  by (rule deref_stage) simp_all

lemma deref_stage_root: "collidersStage a s (deref n ns (s\<lparr>rootsCreated := v\<rparr>))"
  by (rule deref_stage) (simp_all add: later_rootsCreated)

lemma manifest_parts:
  "fst ` set bodyColliderMeshInfos \<subseteq> set manifestNames"
  "fst ` set (map (\<lambda>n. (n, Box)) armColliderMeshInfos) \<subseteq> set manifestNames"
  "fst ` set (map (\<lambda>n. (n, Box)) clawColliderMeshInfos) \<subseteq> set manifestNames"
  unfolding manifest_split by blast+

lemma attach_stage_same:
  "fst ` set infos \<subseteq> set manifestNames \<Longrightarrow>
     collidersStage a s (attachColliders (meshNames a) c infos s)"
  by (rule attach_stage) simp_all

lemma attach_stage_root:
  "fst ` set infos \<subseteq> set manifestNames \<Longrightarrow>
     collidersStage a s (attachColliders (meshNames a) c infos (s\<lparr>rootsCreated := v\<rparr>))"
  by (rule attach_stage) (simp_all add: later_rootsCreated)

lemma attachAllColliders_stage: "collidersStage a st (attachAllColliders a st)"
  unfolding attachAllColliders_def
  by (intro andThen_stage deref_stage_same deref_stage_root attach_stage_same attach_stage_root
      manifest_parts)


lemma without_battery_run:
  "loadMeshes modelWithoutBattery emptyRig
     = Thrown (Error ''failed to find collider mesh in model: collider_battery'')
         (emptyRig\<lparr>rootsCreated := [BodyCompound, ArmCompound, ClawCompound],
            colliders := [(''collider_body'', Box, BodyCompound), (''collider_body_back_panel'', Box, BodyCompound),
              (''collider_body_front_panel'', Box, BodyCompound), (''collider_body_front_legos_1'', Box, BodyCompound),
              (''collider_body_front_legos_2'', Box, BodyCompound), (''collider_body_front_legos_3'', Box, BodyCompound),
              (''collider_body_lego'', Box, BodyCompound), (''collider_caster'', Sphere, BodyCompound),
              (''collider_touch_back_left'', Box, BodyCompound), (''collider_touch_back_right'', Box, BodyCompound),
              (''collider_touch_front'', Box, BodyCompound), (''collider_wallaby'', Box, BodyCompound)]\<rparr>)"
  by (simp add: loadMeshes_def attachAllColliders_def andThen_def deref_def modelWithoutBattery_def
      completeModel_def manifestNames_def bodyColliderMeshInfos_def armColliderMeshInfos_def
      clawColliderMeshInfos_def emptyRig_def)

lemma complete_model_loads:
  "thrown (loadMeshes completeModel emptyRig) = None
   \<and> joints (state_of (loadMeshes completeModel emptyRig)) = [Claw, Arm, RightWheel, LeftWheel]
   \<and> length (colliders (state_of (loadMeshes completeModel emptyRig))) = 26"
  by (simp add: loadMeshes_def attachAllColliders_def finishRig_def andThen_def deref_def
      completeModel_def manifestNames_def bodyColliderMeshInfos_def armColliderMeshInfos_def
      clawColliderMeshInfos_def emptyRig_def)

text \<open>
  Claim C8, as the spec states it, fails in one part: the construction does not undo what it
  has built. With the battery collider missing, \<open>loadMeshes\<close> throws the error that names
  the mesh, and the three compound roots and the twelve colliders attached before the throw
  stay installed.
\<close>

theorem missing_battery_partial_rig_counterexample:
  "thrown (loadMeshes modelWithoutBattery emptyRig)
     = Some (Error ''failed to find collider mesh in model: collider_battery'')
   \<and> rootsCreated (state_of (loadMeshes modelWithoutBattery emptyRig))
     = [BodyCompound, ArmCompound, ClawCompound]
   \<and> length (colliders (state_of (loadMeshes modelWithoutBattery emptyRig))) = 12
   \<and> state_of (loadMeshes modelWithoutBattery emptyRig) \<noteq> emptyRig"
  unfolding without_battery_run by (simp add: emptyRig_def)

text \<open>
  Claim C8, amended. If a collider mesh named in the manifests is absent from the loaded
  model, \<open>loadMeshes\<close> throws: a \<open>TypeError\<close> (a lookup result dereferenced before or
  between the loops) or an \<open>Error\<close> whose message names an absent manifest mesh. The rest
  of the construction is skipped: no wheel is taken up, no baseline is recorded, no root
  impostor, joint or sensor is created, the robot is not placed, and the render loop is not
  started. The promise of \<open>ensureInitialized\<close> is rejected with the error. What was built
  before the throw is left in place.
\<close>

theorem missing_collider_aborts:
  assumes "name \<in> set manifestNames" and "name \<notin> set (meshNames a)"
      and "initializationPromise st = None"
  shows "\<exists>e st'. loadMeshes a st = Thrown e st'
       \<and> (e = TypeError
          \<or> (\<exists>n \<in> set manifestNames. n \<notin> set (meshNames a)
                \<and> e = Error (''failed to find collider mesh in model: '' @ n)))
       \<and> wheelsFound st' = wheelsFound st \<and> visualsParented st' = visualsParented st
       \<and> baselinesRecorded st' = baselinesRecorded st \<and> rootImpostors st' = rootImpostors st
       \<and> joints st' = joints st \<and> sensorsCreated st' = sensorsCreated st
       \<and> robotPlaced st' = robotPlaced st
       \<and> ensureInitialized a st = (Rejected e, st'\<lparr>initializationPromise := Some (Rejected e)\<rparr>)
       \<and> renderLoopRunning (snd (ensureInitialized a st)) = renderLoopRunning st"
proof -
  from assms(1,2) have "\<not> set manifestNames \<subseteq> set (meshNames a)" by blast
  with attachAllColliders_Done have "\<And>s. attachAllColliders a st \<noteq> Done s" by blast
  then obtain e st' where t: "attachAllColliders a st = Thrown e st'"
    by (cases "attachAllColliders a st") auto
  from attachAllColliders_stage[of a st] t
  have l: "laterStages st' = laterStages st"
    and e: "e = TypeError \<or> (\<exists>n \<in> set manifestNames. n \<notin> set (meshNames a)
                \<and> e = Error (''failed to find collider mesh in model: '' @ n))"
    by (simp_all add: collidersStage_def)
  have run: "loadMeshes a st = Thrown e st'"
    by (simp add: loadMeshes_def andThen_def t)
  have ens: "ensureInitialized a st = (Rejected e, st'\<lparr>initializationPromise := Some (Rejected e)\<rparr>)"
    by (simp add: ensureInitialized_def assms(3) run)
  from l have f: "wheelsFound st' = wheelsFound st" "visualsParented st' = visualsParented st"
       "baselinesRecorded st' = baselinesRecorded st" "rootImpostors st' = rootImpostors st"
       "joints st' = joints st" "sensorsCreated st' = sensorsCreated st"
       "robotPlaced st' = robotPlaced st" "renderLoopRunning st' = renderLoopRunning st"
    by (simp_all add: laterStages_def)
  have rl: "renderLoopRunning (snd (ensureInitialized a st)) = renderLoopRunning st"
    by (simp add: ens f)
  from run e f ens rl show ?thesis by blast
qed

theorem missing_collider_aborts_witness:
  "''collider_battery'' \<in> set manifestNames
   \<and> ''collider_battery'' \<notin> set (meshNames modelWithoutBattery)
   \<and> initializationPromise emptyRig = None
   \<and> fst (ensureInitialized modelWithoutBattery emptyRig)
       = Rejected (Error ''failed to find collider mesh in model: collider_battery'')
   \<and> joints (snd (ensureInitialized modelWithoutBattery emptyRig)) = []
   \<and> rootImpostors (snd (ensureInitialized modelWithoutBattery emptyRig)) = []
   \<and> renderLoopRunning (snd (ensureInitialized modelWithoutBattery emptyRig)) = False"
proof -
  have a: "''collider_battery'' \<in> set manifestNames"
    by (simp add: manifestNames_def bodyColliderMeshInfos_def)
  have b: "''collider_battery'' \<notin> set (meshNames modelWithoutBattery)"
    by (simp add: modelWithoutBattery_def)
  have c: "initializationPromise emptyRig = None" by (simp add: emptyRig_def)
  from missing_collider_aborts[OF a b c] obtain e st' where
    r: "loadMeshes modelWithoutBattery emptyRig = Thrown e st'"
    and j: "joints st' = joints emptyRig" "rootImpostors st' = rootImpostors emptyRig"
    and p: "ensureInitialized modelWithoutBattery emptyRig
              = (Rejected e, st'\<lparr>initializationPromise := Some (Rejected e)\<rparr>)"
    and l: "renderLoopRunning (snd (ensureInitialized modelWithoutBattery emptyRig))
              = renderLoopRunning emptyRig"
    by blast
  from r have e: "e = Error ''failed to find collider mesh in model: collider_battery''"
    unfolding without_battery_run by simp
  from a b c e j p l show ?thesis by (simp add: emptyRig_def)
qed

section \<open>Coalescing of scene changes\<close>

lemma run_append: "run st (evs @ evs') = run (run st evs) evs'"
  by (induction evs arbitrary: st) simp_all


text \<open>A request that arrives while the follow-up application is pending is recorded and not
  applied by that run: after the requests A and B, the completion of A, the request C and the
  completion of B, the listener is idle on B with C recorded as unfulfilled. The listener
  runs on every dispatch to the store, and the after-render callback dispatches in every
  frame, so the state does not last: the next notification carries C as the working scene
  and starts its application, and the listener ends idle on C.\<close>

lemma request_during_follow_up:
  "bindingScene (run idleSync [StoreChange ''A'', StoreChange ''B'', SetSceneResolves,
                               StoreChange ''C'', SetSceneResolves]) = Some ''B''
   \<and> latestUnfulfilledScene (run idleSync [StoreChange ''A'', StoreChange ''B'', SetSceneResolves,
                               StoreChange ''C'', SetSceneResolves]) = Some ''C''
   \<and> task (run idleSync [StoreChange ''A'', StoreChange ''B'', SetSceneResolves,
                               StoreChange ''C'', SetSceneResolves]) = Idle
   \<and> setSceneCalls (run idleSync [StoreChange ''A'', StoreChange ''B'', SetSceneResolves,
                               StoreChange ''C'', SetSceneResolves]) = [Some ''A'', Some ''B'']
   \<and> bindingScene (run idleSync [StoreChange ''A'', StoreChange ''B'', SetSceneResolves,
                               StoreChange ''C'', SetSceneResolves,
                               StoreChange ''C'', SetSceneResolves]) = Some ''C''
   \<and> task (run idleSync [StoreChange ''A'', StoreChange ''B'', SetSceneResolves,
                               StoreChange ''C'', SetSceneResolves,
                               StoreChange ''C'', SetSceneResolves]) = Idle
   \<and> physicsEnabled (run idleSync [StoreChange ''A'', StoreChange ''B'', SetSceneResolves,
                               StoreChange ''C'', SetSceneResolves,
                               StoreChange ''C'', SetSceneResolves])
   \<and> setSceneCalls (run idleSync [StoreChange ''A'', StoreChange ''B'', SetSceneResolves,
                               StoreChange ''C'', SetSceneResolves,
                               StoreChange ''C'', SetSceneResolves])
       = [Some ''A'', Some ''B'', Some ''C'']"
  by (simp add: idleSync_def onStoreChange_def setSceneResolved_def)



end
